theory Spec2Isabelle
  imports
    Main
    "HOL-Library.Word"
    "HOL-Library.AList"
    "HOL-Library.Sublist"
    "HOL-Library.Char_ord"
    "HOL-Library.List_Lexorder"
begin

section \<open>AppRole SecretID validation (builtin/credential/approle/validation.go)\<close>

text \<open>
  A shallow embedding of the SecretID registry of the AppRole credential backend.
  Go strings are byte strings (\<open>string\<close>, one \<open>char\<close> per byte, so \<open>length\<close> is Go's
  \<open>len\<close>); Go's \<open>int\<close> and \<open>time.Duration\<close> are 64-bit signed words, compared with the
  signed order; an \<open>error\<close> return is a value of the datatype \<open>error\<close>; the storage
  backend is an explicit state that every operation returns updated.
\<close>

subsection \<open>Errors\<close>

text \<open>
  One constructor per error the file creates. \<open>Wrapped msg e\<close> is
  \<open>fmt.Errorf("msg: %w", e)\<close>; \<open>ExternalError msg\<close> is an error handed back by a
  collaborator (storage, JSON codec, salt, UUID source); \<open>NilPointerDereference\<close> is
  the run-time panic of a field write through a nil pointer.
\<close>

datatype error =
    InvalidHMACKey
  | ValueTooLong nat
  | MissingSecretIDHMAC
  | MissingRoleNameHMAC
  | MissingSecretIDPrefix
  | NilSecretEntry
  | AlreadyRegistered
  | MissingSecretIDAccessor
  | ExternalError string
  | Wrapped string error
  | SubsetVerificationFailed "string list" "string list" "error option"
  | ErrorDeletingSecretID string error
  | NilPointerDereference

subsection \<open>Keyed digest: createHMAC\<close>

text \<open>\<open>encoding/hex\<close>: two lower-case hexadecimal digits per byte, high nibble first.\<close>

definition hextable :: string where
  "hextable = ''0123456789abcdef''"

fun hex_EncodeToString :: "string \<Rightarrow> string" where
  "hex_EncodeToString [] = []"
| "hex_EncodeToString (c # cs) =
     hextable ! ((of_char c :: nat) div 16) # hextable ! ((of_char c :: nat) mod 16)
       # hex_EncodeToString cs"

definition maxHmacInputLength :: nat where
  "maxHmacInputLength = 4096"

text \<open>
  \<open>createHMAC(key, value)\<close>. The digest itself, \<open>hmac.New(sha256.New, key)\<close> written
  with \<open>value\<close> and summed, is the standard library's and is the parameter \<open>mac\<close>:
  it maps the key bytes and the message bytes to the raw digest bytes.
\<close>

definition createHMAC :: "(string \<Rightarrow> string \<Rightarrow> string) \<Rightarrow> string \<Rightarrow> string \<Rightarrow> error + string" where
  "createHMAC mac key val =
     (if key = [] then Inl InvalidHMACKey
      else if length val > maxHmacInputLength then Inl (ValueTooLong maxHmacInputLength)
      else Inr (hex_EncodeToString (mac key val)))"

subsection \<open>Stored records\<close>

type_synonym duration = "64 word"
type_synonym go_int = "64 word"

text \<open>
  \<open>time.Time\<close> is an instant counted in nanoseconds from the zero \<open>Time\<close>, so the zero
  value is \<open>0\<close> and \<open>t.Add(d)\<close> adds the signed duration.
\<close>

type_synonym time = int

definition time_Add :: "time \<Rightarrow> duration \<Rightarrow> time" where
  "time_Add t d = t + sint d"

record secretIDStorageEntry =
  SecretIDAccessor :: string
  SecretIDNumUses :: go_int
  SecretIDTTL :: duration
  CreationTime :: time
  ExpirationTime :: time
  LastUpdatedTime :: time
  Metadata :: "(string \<times> string) list"
  CIDRList :: "string list"
  TokenBoundCIDRs :: "string list"
  SecretIDNumUsesDeprecated :: go_int

record secretIDAccessorStorageEntry =
  SecretIDHMAC :: string

subsection \<open>The storage backend\<close>

text \<open>
  Modelled from the spec: \<open>logical.Storage\<close>, the storage interface the file consumes
  (section 6: \<open>get(key) \<rightarrow> entry|absent\<close>, \<open>put(key, entry)\<close>, \<open>delete(key)\<close>,
  \<open>list(prefix) \<rightarrow> ordered set of child keys\<close>), as an in-memory association list
  from keys to stored values \<open>'v\<close>. Every call is appended to \<open>calls\<close>, in call order,
  whether it succeeds or not. A backend failure is scheduled by \<open>faults\<close>: the call
  number \<open>n\<close> (counted from 0) fails with the given message when \<open>faults n call\<close> says
  so, and then changes nothing. Deleting an absent key is no error.
\<close>

datatype 'v storage_call =
    GetCall string
  | PutCall string 'v
  | DeleteCall string
  | ListCall string

record 'v storage =
  entries :: "(string \<times> 'v) list"
  calls :: "'v storage_call list"
  faults :: "nat \<Rightarrow> 'v storage_call \<Rightarrow> string option"

definition faultOf :: "'v storage \<Rightarrow> 'v storage_call \<Rightarrow> string option" where
  "faultOf s c = faults s (length (calls s)) c"

definition logged :: "'v storage \<Rightarrow> 'v storage_call \<Rightarrow> 'v storage" where
  "logged s c = s\<lparr>calls := calls s @ [c]\<rparr>"

definition storage_Get :: "'v storage \<Rightarrow> string \<Rightarrow> (error + 'v option) \<times> 'v storage" where
  "storage_Get s k =
     (case faultOf s (GetCall k) of
        Some msg \<Rightarrow> (Inl (ExternalError msg), logged s (GetCall k))
      | None \<Rightarrow> (Inr (map_of (entries s) k), logged s (GetCall k)))"

definition storage_Put :: "'v storage \<Rightarrow> string \<Rightarrow> 'v \<Rightarrow> error option \<times> 'v storage" where
  "storage_Put s k v =
     (case faultOf s (PutCall k v) of
        Some msg \<Rightarrow> (Some (ExternalError msg), logged s (PutCall k v))
      | None \<Rightarrow> (None, (logged s (PutCall k v))\<lparr>entries := AList.update k v (entries s)\<rparr>))"

definition storage_Delete :: "'v storage \<Rightarrow> string \<Rightarrow> error option \<times> 'v storage" where
  "storage_Delete s k =
     (case faultOf s (DeleteCall k) of
        Some msg \<Rightarrow> (Some (ExternalError msg), logged s (DeleteCall k))
      | None \<Rightarrow> (None, (logged s (DeleteCall k))\<lparr>entries := AList.delete k (entries s)\<rparr>))"

text \<open>
  The children of a prefix: the rest of every key below it, cut after the first
  \<open>/\<close> when it names a deeper level, without duplicates, in ascending order.
\<close>

definition childName :: "string \<Rightarrow> string" where
  "childName r = (if CHR ''/'' \<in> set r then takeWhile (\<lambda>c. c \<noteq> CHR ''/'') r @ ''/'' else r)"

definition childKeys :: "string \<Rightarrow> string list \<Rightarrow> string list" where
  "childKeys p ks =
     sort (remdups (map (\<lambda>k. childName (drop (length p) k)) (filter (\<lambda>k. prefix p k \<and> k \<noteq> p) ks)))"

definition storage_List :: "'v storage \<Rightarrow> string \<Rightarrow> (error + string list) \<times> 'v storage" where
  "storage_List s p =
     (case faultOf s (ListCall p) of
        Some msg \<Rightarrow> (Inl (ExternalError msg), logged s (ListCall p))
      | None \<Rightarrow> (Inr (childKeys p (map fst (entries s))), logged s (ListCall p)))"

subsection \<open>The backend and its collaborators\<close>

text \<open>
  What the methods of \<open>*backend\<close> read from outside this file, as fields of one record:
  the HMAC-SHA256 of the standard library (\<open>hmacSHA256 key message\<close>, raw digest bytes);
  \<open>b.System().MaxLeaseTTL()\<close>; the clock reading \<open>time.Now()\<close> of the call;
  \<open>uuid.GenerateUUID()\<close> of the call; \<open>b.Salt(ctx)\<close> with its \<open>SaltID\<close>; the three
  path prefixes declared in another file of the package; the JSON codec of
  \<open>logical.StorageEntryJSON\<close> and \<open>entry.DecodeJSON\<close> for the two stored records; and
  \<open>parseip.TrimLeadingZeroesCIDR\<close>.
\<close>

record 'v backend =
  hmacSHA256 :: "string \<Rightarrow> string \<Rightarrow> string"
  maxLeaseTTL :: duration
  timeNow :: time
  generateUUID :: "error + string"
  salt :: "error + (string \<Rightarrow> string)"
  secretIDLocalPrefix :: string
  secretIDAccessorPrefix :: string
  secretIDAccessorLocalPrefix :: string
  secretIDEntryJSON :: "secretIDStorageEntry \<Rightarrow> error + 'v"
  decodeSecretIDJSON :: "'v \<Rightarrow> error + secretIDStorageEntry"
  accessorEntryJSON :: "secretIDAccessorStorageEntry \<Rightarrow> error + 'v"
  trimLeadingZeroesCIDR :: "string \<Rightarrow> string"

subsection \<open>TTL policy: deriveSecretIDTTL\<close>

definition deriveSecretIDTTL :: "'v backend \<Rightarrow> duration \<Rightarrow> duration" where
  "deriveSecretIDTTL b secretIDTTL =
     (if secretIDTTL <s 0 \<or> maxLeaseTTL b <s secretIDTTL then maxLeaseTTL b else secretIDTTL)"

subsection \<open>Reading and writing a SecretID entry\<close>

text \<open>
  \<open>decodeSecretIDStorageEntry\<close>: decode, then trim leading zeroes in both CIDR lists
  (an empty list is returned as it is).
\<close>

definition cleanup :: "'v backend \<Rightarrow> string list \<Rightarrow> string list" where
  "cleanup b xs = (if length xs = 0 then xs else map (trimLeadingZeroesCIDR b) xs)"

definition decodeSecretIDStorageEntry :: "'v backend \<Rightarrow> 'v \<Rightarrow> error + secretIDStorageEntry" where
  "decodeSecretIDStorageEntry b entry =
     (case decodeSecretIDJSON b entry of
        Inl err \<Rightarrow> Inl err
      | Inr result \<Rightarrow>
          Inr (result\<lparr>CIDRList := cleanup b (CIDRList result),
                       TokenBoundCIDRs := cleanup b (TokenBoundCIDRs result)\<rparr>))"

text \<open>The storage index of a SecretID: \<open>fmt.Sprintf("%s%s/%s", prefix, roleNameHMAC, secretIDHMAC)\<close>.\<close>

definition entryIndexOf :: "string \<Rightarrow> string \<Rightarrow> string \<Rightarrow> string" where
  "entryIndexOf roleSecretIDPrefix roleNameHMAC secretIDHMAC =
     roleSecretIDPrefix @ roleNameHMAC @ ''/'' @ secretIDHMAC"

text \<open>
  \<open>nonLockedSetSecretIDStorageEntry\<close>. The entry is a pointer in the source: \<open>None\<close> is
  the nil pointer.
\<close>

definition nonLockedSetSecretIDStorageEntry ::
  "'v backend \<Rightarrow> 'v storage \<Rightarrow> string \<Rightarrow> string \<Rightarrow> string \<Rightarrow> secretIDStorageEntry option
     \<Rightarrow> error option \<times> 'v storage" where
  "nonLockedSetSecretIDStorageEntry b s roleSecretIDPrefix roleNameHMAC secretIDHMAC secretEntry =
     (if roleSecretIDPrefix = [] then (Some MissingSecretIDPrefix, s)
      else if secretIDHMAC = [] then (Some MissingSecretIDHMAC, s)
      else if roleNameHMAC = [] then (Some MissingRoleNameHMAC, s)
      else case secretEntry of
        None \<Rightarrow> (Some NilSecretEntry, s)
      | Some e \<Rightarrow>
          (case secretIDEntryJSON b e of
             Inl err \<Rightarrow> (Some err, s)
           | Inr entry \<Rightarrow>
               storage_Put s (entryIndexOf roleSecretIDPrefix roleNameHMAC secretIDHMAC) entry))"

text \<open>
  The upgrade of the deprecated use count inside \<open>nonLockedSecretIDStorageEntry\<close>: the
  two assignments in the source's order, with the flag \<open>persistNeeded\<close>.
\<close>

definition upgradeNumUses :: "secretIDStorageEntry \<Rightarrow> secretIDStorageEntry \<times> bool" where
  "upgradeNumUses result =
     (if SecretIDNumUsesDeprecated result \<noteq> 0 then
        let (r1, p1) =
              (if SecretIDNumUses result = 0
                  \<or> SecretIDNumUsesDeprecated result <s SecretIDNumUses result
               then (result\<lparr>SecretIDNumUses := SecretIDNumUsesDeprecated result\<rparr>, True)
               else (result, False))
        in if SecretIDNumUses r1 <s SecretIDNumUsesDeprecated r1
           then (r1\<lparr>SecretIDNumUsesDeprecated := SecretIDNumUses r1\<rparr>, True)
           else (r1, p1)
      else (result, False))"

definition nonLockedSecretIDStorageEntry ::
  "'v backend \<Rightarrow> 'v storage \<Rightarrow> string \<Rightarrow> string \<Rightarrow> string
     \<Rightarrow> (error + secretIDStorageEntry option) \<times> 'v storage" where
  "nonLockedSecretIDStorageEntry b s roleSecretIDPrefix roleNameHMAC secretIDHMAC =
     (if secretIDHMAC = [] then (Inl MissingSecretIDHMAC, s)
      else if roleNameHMAC = [] then (Inl MissingRoleNameHMAC, s)
      else case storage_Get s (entryIndexOf roleSecretIDPrefix roleNameHMAC secretIDHMAC) of
        (Inl err, s1) \<Rightarrow> (Inl err, s1)
      | (Inr None, s1) \<Rightarrow> (Inr None, s1)
      | (Inr (Some entry), s1) \<Rightarrow>
          (case decodeSecretIDStorageEntry b entry of
             Inl err \<Rightarrow> (Inl err, s1)
           | Inr decoded \<Rightarrow>
               (case upgradeNumUses decoded of
                  (result, persistNeeded) \<Rightarrow>
                    if persistNeeded then
                      (case nonLockedSetSecretIDStorageEntry b s1 roleSecretIDPrefix roleNameHMAC
                              secretIDHMAC (Some result) of
                         (Some err, s2) \<Rightarrow>
                           (Inl (Wrapped ''failed to upgrade role storage entry'' err), s2)
                       | (None, s2) \<Rightarrow> (Inr (Some result), s2))
                    else (Inr (Some result), s1))))"

subsection \<open>The accessor index\<close>

text \<open>
  \<open>createSecretIDAccessorEntry\<close>. It writes the fresh accessor into the entry it is
  given (a pointer), so the entry is returned as it stands when the function leaves.
\<close>

definition accessorPrefixOf :: "'v backend \<Rightarrow> string \<Rightarrow> string" where
  "accessorPrefixOf b roleSecretIDPrefix =
     (if roleSecretIDPrefix = secretIDLocalPrefix b then secretIDAccessorLocalPrefix b
      else secretIDAccessorPrefix b)"

definition createSecretIDAccessorEntry ::
  "'v backend \<Rightarrow> 'v storage \<Rightarrow> secretIDStorageEntry \<Rightarrow> string \<Rightarrow> string
     \<Rightarrow> error option \<times> secretIDStorageEntry \<times> 'v storage" where
  "createSecretIDAccessorEntry b s entry secretIDHMAC roleSecretIDPrefix =
     (case generateUUID b of
        Inl err \<Rightarrow> (Some err, entry, s)
      | Inr accessorUUID \<Rightarrow>
          let entry1 = entry\<lparr>SecretIDAccessor := accessorUUID\<rparr> in
          (case salt b of
             Inl err \<Rightarrow> (Some err, entry1, s)
           | Inr saltID \<Rightarrow>
               let entryIndex = accessorPrefixOf b roleSecretIDPrefix @ saltID (SecretIDAccessor entry1) in
               (case accessorEntryJSON b \<lparr>SecretIDHMAC = secretIDHMAC\<rparr> of
                  Inl err \<Rightarrow> (Some err, entry1, s)
                | Inr encoded \<Rightarrow>
                    (case storage_Put s entryIndex encoded of
                       (Some err, s1) \<Rightarrow>
                         (Some (Wrapped ''failed to persist accessor index entry'' err), entry1, s1)
                     | (None, s1) \<Rightarrow> (None, entry1, s1)))))"

subsection \<open>Registration: registerSecretIDEntry\<close>

text \<open>
  \<open>registerSecretIDEntry\<close>. The locks change nothing in a single thread; what they
  allow is that other requests run between the release of the read lock and the
  acquisition of the write lock. That window is the parameter \<open>lockSwitch\<close>: whatever
  the rest of the system does to the storage there. The template \<open>secretEntry\<close> is a
  pointer (\<open>None\<close> is nil, and the first field write through it panics).
\<close>

text \<open>
  The time stamps of a new entry (the lines between the second existence check and
  the creation of the accessor): creation and last update are the clock reading, and
  the expiration is set only when the derived TTL is not zero.
\<close>

definition stampTimes :: "'v backend \<Rightarrow> secretIDStorageEntry \<Rightarrow> secretIDStorageEntry" where
  "stampTimes b secretEntry =
     (let currentTime = timeNow b;
          e1 = secretEntry\<lparr>CreationTime := currentTime, LastUpdatedTime := currentTime\<rparr>;
          ttl = deriveSecretIDTTL b (SecretIDTTL e1)
      in if ttl \<noteq> 0 then e1\<lparr>ExpirationTime := time_Add currentTime ttl\<rparr> else e1)"

definition registerSecretIDEntry ::
  "'v backend \<Rightarrow> ('v storage \<Rightarrow> 'v storage) \<Rightarrow> 'v storage \<Rightarrow> string \<Rightarrow> string \<Rightarrow> string \<Rightarrow> string
     \<Rightarrow> secretIDStorageEntry option \<Rightarrow> (error + secretIDStorageEntry) \<times> 'v storage" where
  "registerSecretIDEntry b lockSwitch s roleName secretID hmacKey roleSecretIDPrefix secretEntry =
     (case createHMAC (hmacSHA256 b) hmacKey secretID of
        Inl err \<Rightarrow> (Inl (Wrapped ''failed to create HMAC of secret ID'' err), s)
      | Inr secretIDHMAC \<Rightarrow>
     (case createHMAC (hmacSHA256 b) hmacKey roleName of
        Inl err \<Rightarrow> (Inl (Wrapped ''failed to create HMAC of role_name'' err), s)
      | Inr roleNameHMAC \<Rightarrow>
     (case nonLockedSecretIDStorageEntry b s roleSecretIDPrefix roleNameHMAC secretIDHMAC of
        (Inl err, s1) \<Rightarrow> (Inl err, s1)
      | (Inr (Some found), s1) \<Rightarrow> (Inl AlreadyRegistered, s1)
      | (Inr None, s1) \<Rightarrow>
     (case nonLockedSecretIDStorageEntry b (lockSwitch s1) roleSecretIDPrefix roleNameHMAC secretIDHMAC of
        (Inl err, s2) \<Rightarrow> (Inl err, s2)
      | (Inr (Some found), s2) \<Rightarrow> (Inl AlreadyRegistered, s2)
      | (Inr None, s2) \<Rightarrow>
     (case secretEntry of
        None \<Rightarrow> (Inl NilPointerDereference, s2)
      | Some template \<Rightarrow>
          (case createSecretIDAccessorEntry b s2 (stampTimes b template) secretIDHMAC
                  roleSecretIDPrefix of
             (Some err, e3, s3) \<Rightarrow> (Inl err, s3)
           | (None, e3, s3) \<Rightarrow>
               (case nonLockedSetSecretIDStorageEntry b s3 roleSecretIDPrefix roleNameHMAC
                       secretIDHMAC (Some e3) of
                  (Some err, s4) \<Rightarrow> (Inl err, s4)
                | (None, s4) \<Rightarrow> (Inr e3, s4))))))))"

subsection \<open>Bulk flush: flushRoleSecrets\<close>

text \<open>
  The loop over the listed digests: delete each primary entry, leave at the first
  failure with the error wrapped around the digest that failed.
\<close>

fun flushLoop :: "'v storage \<Rightarrow> string \<Rightarrow> string \<Rightarrow> string list \<Rightarrow> error option \<times> 'v storage" where
  "flushLoop s roleSecretIDPrefix roleNameHMAC [] = (None, s)"
| "flushLoop s roleSecretIDPrefix roleNameHMAC (secretIDHMAC # rest) =
     (case storage_Delete s (entryIndexOf roleSecretIDPrefix roleNameHMAC secretIDHMAC) of
        (Some err, s1) \<Rightarrow> (Some (ErrorDeletingSecretID secretIDHMAC err), s1)
      | (None, s1) \<Rightarrow> flushLoop s1 roleSecretIDPrefix roleNameHMAC rest)"

text \<open>\<open>flushRoleSecrets\<close>: its only result is an \<open>error\<close>.\<close>

definition flushRoleSecrets ::
  "'v backend \<Rightarrow> 'v storage \<Rightarrow> string \<Rightarrow> string \<Rightarrow> string \<Rightarrow> error option \<times> 'v storage" where
  "flushRoleSecrets b s roleName hmacKey roleSecretIDPrefix =
     (case createHMAC (hmacSHA256 b) hmacKey roleName of
        Inl err \<Rightarrow> (Some (Wrapped ''failed to create HMAC of role_name'' err), s)
      | Inr roleNameHMAC \<Rightarrow>
          (case storage_List s (roleSecretIDPrefix @ roleNameHMAC @ ''/'') of
             (Inl err, s1) \<Rightarrow> (Some err, s1)
           | (Inr secretIDHMACs, s1) \<Rightarrow>
               flushLoop s1 roleSecretIDPrefix roleNameHMAC secretIDHMACs))"

subsection \<open>CIDR subset validation: verifyCIDRRoleSecretIDSubset\<close>

text \<open>
  A Go slice is a window (\<open>offset\<close>, \<open>len\<close>) on a backing array that the caller and
  the callee share, so the backing arrays are an explicit heap: the array at address
  \<open>a\<close> is \<open>h ! a\<close>. An element write through a slice changes the heap, and whoever
  reads the same array afterwards sees it.
\<close>

type_synonym heap = "string list list"

record slice =
  array :: nat
  offset :: nat
  len :: nat

definition validSlice :: "heap \<Rightarrow> slice \<Rightarrow> bool" where
  "validSlice h sl = (array sl < length h \<and> offset sl + len sl \<le> length (h ! array sl))"

definition sliceIndex :: "heap \<Rightarrow> slice \<Rightarrow> nat \<Rightarrow> string" where
  "sliceIndex h sl i = h ! array sl ! (offset sl + i)"

definition sliceStore :: "heap \<Rightarrow> slice \<Rightarrow> nat \<Rightarrow> string \<Rightarrow> heap" where
  "sliceStore h sl i v = h[array sl := (h ! array sl)[offset sl + i := v]]"

definition sliceElems :: "heap \<Rightarrow> slice \<Rightarrow> string list" where
  "sliceElems h sl = take (len sl) (drop (offset sl) (h ! array sl))"

text \<open>\<open>strings.Contains(s, substr)\<close>.\<close>

fun strings_Contains :: "string \<Rightarrow> string \<Rightarrow> bool" where
  "strings_Contains [] substr = (substr = [])"
| "strings_Contains (c # cs) substr = (prefix substr (c # cs) \<or> strings_Contains cs substr)"

text \<open>
  One turn of the loop \<open>for i, block := range roleBoundCIDRList\<close>, and the loop: the
  indices \<open>0 .. len - 1\<close> in order, each element read when its turn comes.
\<close>

definition appendMask :: "slice \<Rightarrow> nat \<Rightarrow> heap \<Rightarrow> heap" where
  "appendMask roleBoundCIDRList i h =
     (let block = sliceIndex h roleBoundCIDRList i in
      if \<not> strings_Contains block ''/''
      then sliceStore h roleBoundCIDRList i (block @ ''/32'')
      else h)"

definition appendMasks :: "slice \<Rightarrow> heap \<Rightarrow> heap" where
  "appendMasks roleBoundCIDRList h = fold (appendMask roleBoundCIDRList) [0 ..< len roleBoundCIDRList] h"

text \<open>
  \<open>verifyCIDRRoleSecretIDSubset(secretIDCIDRs, roleBoundCIDRList)\<close>. The containment
  check \<open>cidrutil.SubsetBlocks\<close> lives in another module of the repository and is the
  parameter \<open>subsetBlocks\<close>: given the blocks to check against and the blocks to be
  checked, it answers Go's pair \<open>(subset, err)\<close>. The result is the returned error and
  the heap as the function leaves it.
\<close>

definition verifyCIDRRoleSecretIDSubset ::
  "(string list \<Rightarrow> string list \<Rightarrow> bool \<times> error option) \<Rightarrow> heap \<Rightarrow> slice \<Rightarrow> slice
     \<Rightarrow> error option \<times> heap" where
  "verifyCIDRRoleSecretIDSubset subsetBlocks h secretIDCIDRs roleBoundCIDRList =
     (if len secretIDCIDRs \<noteq> 0 then
        if len roleBoundCIDRList \<noteq> 0 then
          let h1 = appendMasks roleBoundCIDRList h in
          (case subsetBlocks (sliceElems h1 roleBoundCIDRList) (sliceElems h1 secretIDCIDRs) of
             (isSubset, err) \<Rightarrow>
               if \<not> isSubset \<or> err \<noteq> None
               then (Some (SubsetVerificationFailed (sliceElems h1 roleBoundCIDRList)
                             (sliceElems h1 secretIDCIDRs) err), h1)
               else (None, h1))
        else (None, h)
      else (None, h))"

subsection \<open>A containment check for IPv4 blocks\<close>

text \<open>
  Modelled from the spec: \<open>cidrutil.SubsetBlocks\<close>, the containment check, which is
  not among the sources here. Section 4.7: every entry block must resolve to an address
  range fully contained within the union of the role's ranges. A block is
  \<open>a.b.c.d/n\<close> with four decimal octets and a mask length of at most 32; a string of
  any other shape (an address without a mask among them) resolves to no range, and
  the check then answers \<open>false\<close> with an error.
\<close>

definition digitOf :: "char \<Rightarrow> int option" where
  "digitOf c =
     (if CHR ''0'' \<le> c \<and> c \<le> CHR ''9'' then Some (of_char c - of_char CHR ''0'') else None)"

fun decimalFrom :: "int \<Rightarrow> string \<Rightarrow> int option" where
  "decimalFrom acc [] = Some acc"
| "decimalFrom acc (c # cs) =
     (case digitOf c of None \<Rightarrow> None | Some d \<Rightarrow> decimalFrom (10 * acc + d) cs)"

definition parseDecimal :: "string \<Rightarrow> int option" where
  "parseDecimal cs = (if cs = [] \<or> 3 < length cs then None else decimalFrom 0 cs)"

fun splitAt :: "char \<Rightarrow> string \<Rightarrow> string list" where
  "splitAt sep [] = [[]]"
| "splitAt sep (c # cs) =
     (if c = sep then [] # splitAt sep cs
      else (case splitAt sep cs of [] \<Rightarrow> [[c]] | w # ws \<Rightarrow> (c # w) # ws))"

definition parseIPv4 :: "string \<Rightarrow> int option" where
  "parseIPv4 cs =
     (case map parseDecimal (splitAt CHR ''.'' cs) of
        [Some a, Some b, Some c, Some d] \<Rightarrow>
          if a \<le> 255 \<and> b \<le> 255 \<and> c \<le> 255 \<and> d \<le> 255
          then Some (((a * 256 + b) * 256 + c) * 256 + d) else None
      | _ \<Rightarrow> None)"

text \<open>The first and the last address of a block.\<close>

definition parseBlock :: "string \<Rightarrow> (int \<times> int) option" where
  "parseBlock cs =
     (case splitAt CHR ''/'' cs of
        [addr, bits] \<Rightarrow>
          (case (parseIPv4 addr, parseDecimal bits) of
             (Some a, Some n) \<Rightarrow>
               if n \<le> 32
               then Some (a - a mod 2 ^ nat (32 - n), a - a mod 2 ^ nat (32 - n) + 2 ^ nat (32 - n) - 1)
               else None
           | _ \<Rightarrow> None)
      | _ \<Rightarrow> None)"

text \<open>
  Whether the addresses \<open>lo .. hi\<close> all lie in the union of the ranges: take the ranges
  that hold \<open>lo\<close>, jump past the furthest of their ends, and go on from there.
\<close>

function covered :: "(int \<times> int) list \<Rightarrow> int \<Rightarrow> int \<Rightarrow> bool" where
  "covered rs lo hi =
     (if hi < lo then True
      else (case filter (\<lambda>r. fst r \<le> lo \<and> lo \<le> snd r) rs of
              [] \<Rightarrow> False
            | c # cs \<Rightarrow> covered rs (fold max (map snd cs) (snd c) + 1) hi))"
  by pat_completeness auto

termination covered
proof (relation "measure (\<lambda>(rs, lo, hi). nat (hi + 1 - lo))")
  show "wf (measure (\<lambda>(rs, lo, hi). nat (hi + 1 - lo)))" by simp
next
  fix rs :: "(int \<times> int) list" and lo hi :: int and c cs
  assume le: "\<not> hi < lo"
    and f: "filter (\<lambda>r. fst r \<le> lo \<and> lo \<le> snd r) rs = c # cs"
  have grows: "x \<le> fold max xs x" for x :: int and xs
  proof (induction xs arbitrary: x)
    case Nil
    show ?case by simp
  next
    case (Cons y ys)
    have "x \<le> max y x" by simp
    also have "max y x \<le> fold max ys (max y x)" by (rule Cons.IH)
    finally show ?case by simp
  qed
  have "c \<in> set (filter (\<lambda>r. fst r \<le> lo \<and> lo \<le> snd r) rs)"
    unfolding f by simp
  then have "lo \<le> snd c" by simp
  also have "snd c \<le> fold max (map snd cs) (snd c)" by (rule grows)
  finally have "lo \<le> fold max (map snd cs) (snd c)" .
  with le show "((rs, fold max (map snd cs) (snd c) + 1, hi), (rs, lo, hi))
          \<in> measure (\<lambda>(rs, lo, hi). nat (hi + 1 - lo))"
    by simp
qed

definition allSome :: "'a option list \<Rightarrow> 'a list option" where
  "allSome xs = (if list_all (\<lambda>x. x \<noteq> None) xs then Some (map the xs) else None)"

definition cidrutil_SubsetBlocks :: "string list \<Rightarrow> string list \<Rightarrow> bool \<times> error option" where
  "cidrutil_SubsetBlocks cidrBlocks1 cidrBlocks2 =
     (case (allSome (map parseBlock cidrBlocks1), allSome (map parseBlock cidrBlocks2)) of
        (Some rs1, Some rs2) \<Rightarrow> (list_all (\<lambda>r. covered rs1 (fst r) (snd r)) rs2, None)
      | _ \<Rightarrow> (False, Some (ExternalError ''invalid CIDR block'')))"

subsection \<open>A concrete backend\<close>

text \<open>
  A small instance on which the functions can be run: stored values are the records
  themselves (or something that does not decode), the digest is a stand-in that joins
  key and message, and the prefixes are those of the package.
\<close>

datatype stored =
    SecretIDRecord secretIDStorageEntry
  | AccessorRecord secretIDAccessorStorageEntry
  | Unreadable

definition decodeStored :: "stored \<Rightarrow> error + secretIDStorageEntry" where
  "decodeStored v =
     (case v of SecretIDRecord e \<Rightarrow> Inr e | _ \<Rightarrow> Inl (ExternalError ''cannot decode''))"

definition exampleBackend :: "stored backend" where
  "exampleBackend =
     \<lparr>hmacSHA256 = (\<lambda>key message. key @ message),
      maxLeaseTTL = 10,
      timeNow = 1000,
      generateUUID = Inr ''u1'',
      salt = Inr (\<lambda>accessor. ''salted-'' @ accessor),
      secretIDLocalPrefix = ''secret_id_local/'',
      secretIDAccessorPrefix = ''accessor/'',
      secretIDAccessorLocalPrefix = ''accessor_local/'',
      secretIDEntryJSON = (\<lambda>e. Inr (SecretIDRecord e)),
      decodeSecretIDJSON = decodeStored,
      accessorEntryJSON = (\<lambda>a. Inr (AccessorRecord a)),
      trimLeadingZeroesCIDR = (\<lambda>block. block)\<rparr>"

definition noFaults :: "nat \<Rightarrow> stored storage_call \<Rightarrow> string option" where
  "noFaults n c = None"

text \<open>
  An entry written by an old release, with both use counts set and different, stored
  for role \<open>r\<close> and SecretID \<open>s\<close> under the key \<open>k\<close> of the stand-in digest.
\<close>

definition legacyEntry :: secretIDStorageEntry where
  "legacyEntry =
     \<lparr>SecretIDAccessor = ''u0'', SecretIDNumUses = 5, SecretIDTTL = 0, CreationTime = 900,
      ExpirationTime = 0, LastUpdatedTime = 900, Metadata = [], CIDRList = [],
      TokenBoundCIDRs = [], SecretIDNumUsesDeprecated = 3\<rparr>"

definition legacyStorage :: "stored storage" where
  "legacyStorage =
     \<lparr>entries = [(''secret_id/6b72/6b73'', SecretIDRecord legacyEntry)], calls = [],
      faults = noFaults\<rparr>"

text \<open>An empty storage, a fresh template, and a backend whose third call fails.\<close>

definition emptyStorage :: "stored storage" where
  "emptyStorage = \<lparr>entries = [], calls = [], faults = noFaults\<rparr>"

definition exampleTemplate :: secretIDStorageEntry where
  "exampleTemplate =
     \<lparr>SecretIDAccessor = [], SecretIDNumUses = 1, SecretIDTTL = 0, CreationTime = 0,
      ExpirationTime = 0, LastUpdatedTime = 0, Metadata = [], CIDRList = [],
      TokenBoundCIDRs = [], SecretIDNumUsesDeprecated = 0\<rparr>"

definition thirdCallFails :: "nat \<Rightarrow> stored storage_call \<Rightarrow> string option" where
  "thirdCallFails n c = (if n = 2 then Some ''backend unavailable'' else None)"

definition unreliableStorage :: "stored storage" where
  "unreliableStorage = \<lparr>entries = [], calls = [], faults = thirdCallFails\<rparr>"




text \<open>
  Two storages for a flush of role \<open>r\<close>, with two and with one SecretID under the
  role's prefix, on a backend that refuses to delete the one with digest \<open>bb\<close>.
\<close>

definition deleteOfBBFails :: "nat \<Rightarrow> stored storage_call \<Rightarrow> string option" where
  "deleteOfBBFails n c =
     (if c = DeleteCall ''secret_id/6b72/bb'' then Some ''backend unavailable'' else None)"

definition twoSecrets :: "stored storage" where
  "twoSecrets =
     \<lparr>entries = [(''secret_id/6b72/aa'', SecretIDRecord exampleTemplate),
                 (''secret_id/6b72/bb'', SecretIDRecord exampleTemplate)],
      calls = [], faults = deleteOfBBFails\<rparr>"

definition oneSecret :: "stored storage" where
  "oneSecret =
     \<lparr>entries = [(''secret_id/6b72/bb'', SecretIDRecord exampleTemplate)],
      calls = [], faults = deleteOfBBFails\<rparr>"

subsection \<open>The reconciliation rule in the specification's words\<close>

text \<open>
  Section 4.8: take the more restrictive (smaller, but non-zero) of the two use counts,
  and give it to both fields.
\<close>

definition spec_smallerNonZero :: "go_int \<Rightarrow> go_int \<Rightarrow> go_int" where
  "spec_smallerNonZero x y =
     (if x = 0 then y else if y = 0 then x else if sint x < sint y then x else y)"

definition spec_reconciled :: "secretIDStorageEntry \<Rightarrow> secretIDStorageEntry" where
  "spec_reconciled e =
     e\<lparr>SecretIDNumUses := spec_smallerNonZero (SecretIDNumUses e) (SecretIDNumUsesDeprecated e),
       SecretIDNumUsesDeprecated := spec_smallerNonZero (SecretIDNumUses e) (SecretIDNumUsesDeprecated e)\<rparr>"

subsection \<open>The host mask in the specification's words\<close>

text \<open>
  Section 4.7: a bare address (no explicit mask) is normalized to a host-only mask.
\<close>

definition spec_withHostMask :: "string \<Rightarrow> string" where
  "spec_withHostMask block = (if CHR ''/'' \<in> set block then block else block @ ''/32'')"

section \<open>Properties\<close>

subsection \<open>TTL policy\<close>

text \<open>
  C3. For every requested TTL and system max lease TTL, \<open>deriveSecretIDTTL\<close> returns
  the system max when the requested value is negative or exceeds the system max, and
  the requested value otherwise; a requested TTL of 0 with a positive max yields 0.
  The values are read as signed 64-bit integers.
\<close>

theorem deriveSecretIDTTL_policy:
  "(sint secretIDTTL < 0 \<or> sint (maxLeaseTTL b) < sint secretIDTTL
      \<longrightarrow> deriveSecretIDTTL b secretIDTTL = maxLeaseTTL b)
   \<and> (\<not> (sint secretIDTTL < 0 \<or> sint (maxLeaseTTL b) < sint secretIDTTL)
      \<longrightarrow> deriveSecretIDTTL b secretIDTTL = secretIDTTL)
   \<and> (0 < sint (maxLeaseTTL b) \<longrightarrow> deriveSecretIDTTL b 0 = 0)"
  by (simp add: deriveSecretIDTTL_def word_sless_alt)

theorem deriveSecretIDTTL_policy_witness:
  "sint (-1 :: duration) < 0 \<and> deriveSecretIDTTL exampleBackend (-1) = 10
   \<and> \<not> (sint (5 :: duration) < 0 \<or> sint (maxLeaseTTL exampleBackend) < sint (5 :: duration))
   \<and> deriveSecretIDTTL exampleBackend 5 = 5
   \<and> sint (maxLeaseTTL exampleBackend) < sint (20 :: duration)
   \<and> deriveSecretIDTTL exampleBackend 20 = 10
   \<and> 0 < sint (maxLeaseTTL exampleBackend) \<and> deriveSecretIDTTL exampleBackend 0 = 0"
proof -
  have m: "maxLeaseTTL exampleBackend = 10" by (simp add: exampleBackend_def)
  have h1: "sint (-1 :: duration) < 0" by simp
  have h2: "\<not> (sint (5 :: duration) < 0 \<or> sint (maxLeaseTTL exampleBackend) < sint (5 :: duration))"
    by (simp add: m)
  have h3: "sint (maxLeaseTTL exampleBackend) < sint (20 :: duration)" by (simp add: m)
  have h4: "0 < sint (maxLeaseTTL exampleBackend)" by (simp add: m)
  from deriveSecretIDTTL_policy [of "-1" exampleBackend] h1
  have c1: "deriveSecretIDTTL exampleBackend (-1) = 10" by (simp add: m)
  from deriveSecretIDTTL_policy [of 5 exampleBackend] h2
  have c2: "deriveSecretIDTTL exampleBackend 5 = 5" by blast
  from deriveSecretIDTTL_policy [of 20 exampleBackend] h3
  have c3: "deriveSecretIDTTL exampleBackend 20 = 10" by (simp add: m)
  from deriveSecretIDTTL_policy [of 0 exampleBackend] h4
  have c4: "deriveSecretIDTTL exampleBackend 0 = 0" by blast
  from h1 h2 h3 h4 c1 c2 c3 c4 show ?thesis by blast
qed

subsection \<open>Keyed digest\<close>

text \<open>
  C4. \<open>createHMAC(key, value)\<close> fails if and only if the key is the empty string
  (invalid key) or the value is longer than 4096 bytes (input too large); for every
  other pair it succeeds, and its result is the hexadecimal encoding of the digest of
  that key and that value, so the same pair always gives the same string.
\<close>

theorem createHMAC_contract:
  "(isl (createHMAC mac key val) \<longleftrightarrow> key = [] \<or> 4096 < length val)
   \<and> (key = [] \<longrightarrow> createHMAC mac key val = Inl InvalidHMACKey)
   \<and> (key \<noteq> [] \<and> 4096 < length val \<longrightarrow> createHMAC mac key val = Inl (ValueTooLong 4096))
   \<and> (key \<noteq> [] \<and> length val \<le> 4096 \<longrightarrow>
        createHMAC mac key val = Inr (hex_EncodeToString (mac key val)))"
  by (simp add: createHMAC_def maxHmacInputLength_def)

theorem createHMAC_contract_witness:
  "createHMAC (hmacSHA256 exampleBackend) [] ''s'' = Inl InvalidHMACKey
   \<and> ''k'' \<noteq> [] \<and> 4096 < length (replicate 4097 CHR ''a'')
   \<and> createHMAC (hmacSHA256 exampleBackend) ''k'' (replicate 4097 CHR ''a'') = Inl (ValueTooLong 4096)
   \<and> length ''s'' \<le> 4096
   \<and> createHMAC (hmacSHA256 exampleBackend) ''k'' ''s'' = Inr ''6b73''"
proof -
  have hx: "hex_EncodeToString (hmacSHA256 exampleBackend ''k'' ''s'') = ''6b73''"
    by (simp add: exampleBackend_def hextable_def)
  have c1: "createHMAC (hmacSHA256 exampleBackend) [] ''s'' = Inl InvalidHMACKey"
    using createHMAC_contract [of "hmacSHA256 exampleBackend" "[]" "''s''"] by blast
  have c2: "createHMAC (hmacSHA256 exampleBackend) ''k'' (replicate 4097 CHR ''a'')
              = Inl (ValueTooLong 4096)"
    using createHMAC_contract [of "hmacSHA256 exampleBackend" "''k''" "replicate 4097 CHR ''a''"]
    by simp
  have c3: "createHMAC (hmacSHA256 exampleBackend) ''k'' ''s'' = Inr ''6b73''"
    using createHMAC_contract [of "hmacSHA256 exampleBackend" "''k''" "''s''"] hx by simp
  from c1 c2 c3 show ?thesis by simp
qed

subsection \<open>Reading an entry, and the upgrade of the deprecated use count\<close>

lemma sint_neq: "(a :: 64 word) \<noteq> b \<Longrightarrow> sint a \<noteq> sint b"
  by (auto intro: signed_word_eqI)

lemma upgradeNumUses_changed:
  assumes "SecretIDNumUsesDeprecated r \<noteq> 0"
      and "SecretIDNumUsesDeprecated r \<noteq> SecretIDNumUses r"
  shows "upgradeNumUses r = (spec_reconciled r, True)"
proof -
  from assms(2) have ne: "sint (SecretIDNumUsesDeprecated r) \<noteq> sint (SecretIDNumUses r)"
    by (rule sint_neq)
  show ?thesis
  proof (cases "SecretIDNumUses r = 0 \<or> sint (SecretIDNumUsesDeprecated r) < sint (SecretIDNumUses r)")
    case True
    with assms(1) show ?thesis
      by (auto simp: upgradeNumUses_def word_sless_alt Let_def spec_smallerNonZero_def spec_reconciled_def)
  next
    case False
    with ne have lt: "sint (SecretIDNumUses r) < sint (SecretIDNumUsesDeprecated r)" by simp
    from False lt assms(1) show ?thesis
      by (simp add: upgradeNumUses_def word_sless_alt Let_def spec_smallerNonZero_def spec_reconciled_def)
  qed
qed


lemma storage_Get_ok:
  "faultOf s (GetCall k) = None \<Longrightarrow> storage_Get s k = (Inr (map_of (entries s) k), logged s (GetCall k))"
  by (simp add: storage_Get_def)

lemma read_present:
  assumes "secretIDHMAC \<noteq> []" and "roleNameHMAC \<noteq> []"
      and "faultOf s (GetCall (entryIndexOf p roleNameHMAC secretIDHMAC)) = None"
      and "map_of (entries s) (entryIndexOf p roleNameHMAC secretIDHMAC) = Some entry"
      and "decodeSecretIDStorageEntry b entry = Inr decoded"
  shows "nonLockedSecretIDStorageEntry b s p roleNameHMAC secretIDHMAC =
           (case upgradeNumUses decoded of
              (result, persistNeeded) \<Rightarrow>
                if persistNeeded then
                  (case nonLockedSetSecretIDStorageEntry b
                          (logged s (GetCall (entryIndexOf p roleNameHMAC secretIDHMAC)))
                          p roleNameHMAC secretIDHMAC (Some result) of
                     (Some err, s2) \<Rightarrow> (Inl (Wrapped ''failed to upgrade role storage entry'' err), s2)
                   | (None, s2) \<Rightarrow> (Inr (Some result), s2))
                else (Inr (Some result), logged s (GetCall (entryIndexOf p roleNameHMAC secretIDHMAC))))"
  using assms by (simp add: nonLockedSecretIDStorageEntry_def storage_Get_ok)

lemma set_cases:
  "nonLockedSetSecretIDStorageEntry b s p roleNameHMAC secretIDHMAC (Some e) = (None, s')
     \<longleftrightarrow> p \<noteq> [] \<and> secretIDHMAC \<noteq> [] \<and> roleNameHMAC \<noteq> []
          \<and> (\<exists>v. secretIDEntryJSON b e = Inr v
                 \<and> storage_Put s (entryIndexOf p roleNameHMAC secretIDHMAC) v = (None, s'))"
  by (auto simp: nonLockedSetSecretIDStorageEntry_def split: sum.splits)

text \<open>
  C8. On every read through \<open>nonLockedSecretIDStorageEntry\<close> where the stored deprecated
  use count is non-zero and differs from the canonical one, an entry is returned only
  after it has been written back: the returned entry is the stored one with both
  fields set to the smaller non-zero of the two stored values (the deprecated value
  when the canonical one is zero), and its encoding has been put at the same key on
  that read. The read does return it whenever the prefix is present, the entry
  encodes and the backend accepts the write.
\<close>

theorem legacy_use_count_reconciled_on_read:
  assumes "secretIDHMAC \<noteq> []" and "roleNameHMAC \<noteq> []"
      and "faultOf s (GetCall (entryIndexOf p roleNameHMAC secretIDHMAC)) = None"
      and "map_of (entries s) (entryIndexOf p roleNameHMAC secretIDHMAC) = Some entry"
      and "decodeSecretIDStorageEntry b entry = Inr decoded"
      and "SecretIDNumUsesDeprecated decoded \<noteq> 0"
      and "SecretIDNumUsesDeprecated decoded \<noteq> SecretIDNumUses decoded"
  shows "(\<forall>r s'. nonLockedSecretIDStorageEntry b s p roleNameHMAC secretIDHMAC = (Inr r, s') \<longrightarrow>
            r = Some (spec_reconciled decoded)
            \<and> (\<exists>v. secretIDEntryJSON b (spec_reconciled decoded) = Inr v
                  \<and> storage_Put (snd (storage_Get s (entryIndexOf p roleNameHMAC secretIDHMAC)))
                        (entryIndexOf p roleNameHMAC secretIDHMAC) v = (None, s')
                  \<and> map_of (entries s') (entryIndexOf p roleNameHMAC secretIDHMAC) = Some v))
       \<and> (\<forall>v. p \<noteq> []
            \<and> secretIDEntryJSON b (spec_reconciled decoded) = Inr v
            \<and> faultOf (snd (storage_Get s (entryIndexOf p roleNameHMAC secretIDHMAC)))
                  (PutCall (entryIndexOf p roleNameHMAC secretIDHMAC) v) = None
            \<longrightarrow> nonLockedSecretIDStorageEntry b s p roleNameHMAC secretIDHMAC
                  = (Inr (Some (spec_reconciled decoded)),
                     snd (storage_Put (snd (storage_Get s (entryIndexOf p roleNameHMAC secretIDHMAC)))
                            (entryIndexOf p roleNameHMAC secretIDHMAC) v)))"
proof -
  let ?k = "entryIndexOf p roleNameHMAC secretIDHMAC"
  let ?res = "spec_reconciled decoded"
  have up: "upgradeNumUses decoded = (?res, True)"
    using assms(6,7) by (rule upgradeNumUses_changed)
  have g: "snd (storage_Get s ?k) = logged s (GetCall ?k)"
    using assms(3) by (simp add: storage_Get_ok)
  have rd: "nonLockedSecretIDStorageEntry b s p roleNameHMAC secretIDHMAC =
      (case nonLockedSetSecretIDStorageEntry b (logged s (GetCall ?k)) p roleNameHMAC secretIDHMAC (Some ?res) of
         (Some err, s2) \<Rightarrow> (Inl (Wrapped ''failed to upgrade role storage entry'' err), s2)
       | (None, s2) \<Rightarrow> (Inr (Some ?res), s2))"
    using read_present [OF assms(1-5)] up by simp
  have a: "r = Some ?res \<and> (\<exists>v. secretIDEntryJSON b ?res = Inr v
             \<and> storage_Put (snd (storage_Get s ?k)) ?k v = (None, s')
             \<and> map_of (entries s') ?k = Some v)"
    if ret: "nonLockedSecretIDStorageEntry b s p roleNameHMAC secretIDHMAC = (Inr r, s')" for r s'
  proof -
    from ret rd have w: "nonLockedSetSecretIDStorageEntry b (logged s (GetCall ?k)) p roleNameHMAC secretIDHMAC (Some ?res) = (None, s')"
      and r: "r = Some ?res"
      by (auto split: prod.splits option.splits)
    from w obtain v where v: "secretIDEntryJSON b ?res = Inr v"
      and put: "storage_Put (logged s (GetCall ?k)) ?k v = (None, s')"
      unfolding set_cases by blast
    from put have "map_of (entries s') ?k = Some v"
      by (auto simp: storage_Put_def logged_def update_conv' split: option.splits)
    with r v put g show ?thesis by simp
  qed
  have b: "nonLockedSecretIDStorageEntry b s p roleNameHMAC secretIDHMAC
             = (Inr (Some ?res), snd (storage_Put (snd (storage_Get s ?k)) ?k v))"
    if "p \<noteq> []" and "secretIDEntryJSON b ?res = Inr v"
      and "faultOf (snd (storage_Get s ?k)) (PutCall ?k v) = None" for v
    using that assms(1,2) unfolding rd g
    by (simp add: nonLockedSetSecretIDStorageEntry_def storage_Put_def)
  from a b show ?thesis by blast
qed

lemma example_key: "entryIndexOf ''secret_id/'' ''6b72'' ''6b73'' = ''secret_id/6b72/6b73''"
  by (simp add: entryIndexOf_def)

theorem legacy_use_count_reconciled_on_read_witness:
  "map_of (entries legacyStorage) ''secret_id/6b72/6b73'' = Some (SecretIDRecord legacyEntry)
   \<and> decodeSecretIDStorageEntry exampleBackend (SecretIDRecord legacyEntry) = Inr legacyEntry
   \<and> SecretIDNumUsesDeprecated legacyEntry = 3 \<and> SecretIDNumUses legacyEntry = 5
   \<and> fst (nonLockedSecretIDStorageEntry exampleBackend legacyStorage ''secret_id/'' ''6b72'' ''6b73'')
       = Inr (Some (legacyEntry\<lparr>SecretIDNumUses := 3, SecretIDNumUsesDeprecated := 3\<rparr>))
   \<and> entries (snd (nonLockedSecretIDStorageEntry exampleBackend legacyStorage ''secret_id/'' ''6b72'' ''6b73''))
       = [(''secret_id/6b72/6b73'',
           SecretIDRecord (legacyEntry\<lparr>SecretIDNumUses := 3, SecretIDNumUsesDeprecated := 3\<rparr>))]
   \<and> calls (snd (nonLockedSecretIDStorageEntry exampleBackend legacyStorage ''secret_id/'' ''6b72'' ''6b73''))
       = [GetCall ''secret_id/6b72/6b73'',
          PutCall ''secret_id/6b72/6b73''
            (SecretIDRecord (legacyEntry\<lparr>SecretIDNumUses := 3, SecretIDNumUsesDeprecated := 3\<rparr>))]"
proof -
  let ?v = "SecretIDRecord (spec_reconciled legacyEntry)"
  have h1: "''6b73'' \<noteq> []" and h2: "''6b72'' \<noteq> []" by simp_all
  have h3: "faultOf legacyStorage (GetCall (entryIndexOf ''secret_id/'' ''6b72'' ''6b73'')) = None"
    by (simp add: faultOf_def legacyStorage_def noFaults_def)
  have h4: "map_of (entries legacyStorage) (entryIndexOf ''secret_id/'' ''6b72'' ''6b73'')
              = Some (SecretIDRecord legacyEntry)"
    by (simp add: example_key legacyStorage_def)
  have h5: "decodeSecretIDStorageEntry exampleBackend (SecretIDRecord legacyEntry) = Inr legacyEntry"
    by (simp add: decodeSecretIDStorageEntry_def exampleBackend_def decodeStored_def cleanup_def
        legacyEntry_def)
  have h6: "SecretIDNumUsesDeprecated legacyEntry \<noteq> 0"
    and h7: "SecretIDNumUsesDeprecated legacyEntry \<noteq> SecretIDNumUses legacyEntry"
    by (simp_all add: legacyEntry_def)
  have h8: "''secret_id/'' \<noteq> []
      \<and> secretIDEntryJSON exampleBackend (spec_reconciled legacyEntry) = Inr ?v
      \<and> faultOf (snd (storage_Get legacyStorage (entryIndexOf ''secret_id/'' ''6b72'' ''6b73'')))
            (PutCall (entryIndexOf ''secret_id/'' ''6b72'' ''6b73'') ?v) = None"
    by (simp add: exampleBackend_def faultOf_def storage_Get_def logged_def legacyStorage_def
        noFaults_def)
  have rec: "spec_reconciled legacyEntry
               = legacyEntry\<lparr>SecretIDNumUses := 3, SecretIDNumUsesDeprecated := 3\<rparr>"
    by (simp add: spec_reconciled_def spec_smallerNonZero_def legacyEntry_def)
  from legacy_use_count_reconciled_on_read [OF h1 h2 h3 h4 h5 h6 h7] h8
  have "nonLockedSecretIDStorageEntry exampleBackend legacyStorage ''secret_id/'' ''6b72'' ''6b73''
          = (Inr (Some (spec_reconciled legacyEntry)),
             snd (storage_Put (snd (storage_Get legacyStorage (entryIndexOf ''secret_id/'' ''6b72'' ''6b73'')))
                    (entryIndexOf ''secret_id/'' ''6b72'' ''6b73'') ?v))"
    by blast
  then have run: "nonLockedSecretIDStorageEntry exampleBackend legacyStorage ''secret_id/'' ''6b72'' ''6b73''
          = (Inr (Some (legacyEntry\<lparr>SecretIDNumUses := 3, SecretIDNumUsesDeprecated := 3\<rparr>)),
             \<lparr>entries = [(''secret_id/6b72/6b73'',
                   SecretIDRecord (legacyEntry\<lparr>SecretIDNumUses := 3, SecretIDNumUsesDeprecated := 3\<rparr>))],
              calls = [GetCall ''secret_id/6b72/6b73'',
                   PutCall ''secret_id/6b72/6b73''
                     (SecretIDRecord (legacyEntry\<lparr>SecretIDNumUses := 3, SecretIDNumUsesDeprecated := 3\<rparr>))],
              faults = noFaults\<rparr>)"
    by (simp add: rec example_key storage_Put_def storage_Get_def faultOf_def logged_def
        legacyStorage_def noFaults_def)
  have vals: "SecretIDNumUsesDeprecated legacyEntry = 3 \<and> SecretIDNumUses legacyEntry = 5"
    by (simp add: legacyEntry_def)
  have present: "map_of (entries legacyStorage) ''secret_id/6b72/6b73'' = Some (SecretIDRecord legacyEntry)"
    by (simp add: legacyStorage_def)
  from present h5 vals show ?thesis
    unfolding run by simp
qed

subsection \<open>Registration\<close>

lemma storage_Put_ok_iff:
  "storage_Put s k v = (None, s') \<longleftrightarrow>
     faultOf s (PutCall k v) = None
     \<and> s' = (logged s (PutCall k v))\<lparr>entries := AList.update k v (entries s)\<rparr>"
  by (auto simp: storage_Put_def split: option.splits)

lemma storage_Put_failed:
  "storage_Put s k v = (Some err, s') \<Longrightarrow> entries s' = entries s \<and> calls s' = calls s @ [PutCall k v]"
  by (auto simp: storage_Put_def logged_def split: option.splits)

lemma set_failed:
  "nonLockedSetSecretIDStorageEntry b s p roleNameHMAC secretIDHMAC e = (Some err, s')
     \<Longrightarrow> entries s' = entries s"
  by (auto simp: nonLockedSetSecretIDStorageEntry_def dest: storage_Put_failed
      split: if_splits option.splits sum.splits)

lemma read_nothing_iff:
  "nonLockedSecretIDStorageEntry b s p roleNameHMAC secretIDHMAC = (Inr None, s') \<longleftrightarrow>
     secretIDHMAC \<noteq> [] \<and> roleNameHMAC \<noteq> []
     \<and> faultOf s (GetCall (entryIndexOf p roleNameHMAC secretIDHMAC)) = None
     \<and> map_of (entries s) (entryIndexOf p roleNameHMAC secretIDHMAC) = None
     \<and> s' = logged s (GetCall (entryIndexOf p roleNameHMAC secretIDHMAC))"
  by (auto simp: nonLockedSecretIDStorageEntry_def storage_Get_def
      split: option.splits sum.splits prod.splits if_splits)

lemma create_accessor_ok_iff:
  "createSecretIDAccessorEntry b s e secretIDHMAC p = (None, e', s') \<longleftrightarrow>
     (\<exists>accessor saltID encoded.
        generateUUID b = Inr accessor \<and> salt b = Inr saltID
        \<and> accessorEntryJSON b \<lparr>SecretIDHMAC = secretIDHMAC\<rparr> = Inr encoded
        \<and> e' = e\<lparr>SecretIDAccessor := accessor\<rparr>
        \<and> storage_Put s (accessorPrefixOf b p @ saltID accessor) encoded = (None, s'))"
  by (auto simp: createSecretIDAccessorEntry_def Let_def split: sum.splits option.splits prod.splits)

lemma create_accessor_failed:
  assumes "createSecretIDAccessorEntry b s e secretIDHMAC p = (Some err, e', s')"
  shows "entries s' = entries s
         \<and> (calls s' = calls s
            \<or> (\<exists>accessor saltID encoded.
                  generateUUID b = Inr accessor \<and> salt b = Inr saltID
                  \<and> accessorEntryJSON b \<lparr>SecretIDHMAC = secretIDHMAC\<rparr> = Inr encoded
                  \<and> faultOf s (PutCall (accessorPrefixOf b p @ saltID accessor) encoded) \<noteq> None
                  \<and> calls s' = calls s @ [PutCall (accessorPrefixOf b p @ saltID accessor) encoded]))"
  using assms
  by (auto simp: createSecretIDAccessorEntry_def Let_def storage_Put_def logged_def
      split: sum.splits option.splits prod.splits)

lemma create_accessor_entry_irrelevant:
  "fst (createSecretIDAccessorEntry b s e secretIDHMAC p) = fst (createSecretIDAccessorEntry b s e0 secretIDHMAC p)
   \<and> snd (snd (createSecretIDAccessorEntry b s e secretIDHMAC p))
       = snd (snd (createSecretIDAccessorEntry b s e0 secretIDHMAC p))"
  by (auto simp: createSecretIDAccessorEntry_def Let_def split: sum.splits option.splits prod.splits)

lemma register_fresh:
  assumes h1: "createHMAC (hmacSHA256 b) hmacKey secretID = Inr secretIDHMAC"
      and h2: "createHMAC (hmacSHA256 b) hmacKey roleName = Inr roleNameHMAC"
      and r1: "nonLockedSecretIDStorageEntry b s p roleNameHMAC secretIDHMAC = (Inr None, s1)"
      and r2: "nonLockedSecretIDStorageEntry b (lockSwitch s1) p roleNameHMAC secretIDHMAC = (Inr None, s2)"
      and c: "createSecretIDAccessorEntry b s2 (stampTimes b template) secretIDHMAC p = (c, e3, s3)"
  shows "registerSecretIDEntry b lockSwitch s roleName secretID hmacKey p (Some template) =
      (case c of Some err \<Rightarrow> (Inl err, s3)
       | None \<Rightarrow> (case nonLockedSetSecretIDStorageEntry b s3 p roleNameHMAC secretIDHMAC (Some e3) of
                    (Some err, s4) \<Rightarrow> (Inl err, s4) | (None, s4) \<Rightarrow> (Inr e3, s4)))"
  using assms by (simp add: registerSecretIDEntry_def split: option.splits)

lemma register_success:
  assumes "registerSecretIDEntry b lockSwitch s roleName secretID hmacKey p secretEntry = (Inr e, s')"
  shows "\<exists>secretIDHMAC roleNameHMAC template s2 s3.
           createHMAC (hmacSHA256 b) hmacKey secretID = Inr secretIDHMAC
         \<and> createHMAC (hmacSHA256 b) hmacKey roleName = Inr roleNameHMAC
         \<and> nonLockedSecretIDStorageEntry b
              (lockSwitch (logged s (GetCall (entryIndexOf p roleNameHMAC secretIDHMAC))))
              p roleNameHMAC secretIDHMAC = (Inr None, s2)
         \<and> nonLockedSecretIDStorageEntry b s p roleNameHMAC secretIDHMAC
              = (Inr None, logged s (GetCall (entryIndexOf p roleNameHMAC secretIDHMAC)))
         \<and> secretEntry = Some template
         \<and> createSecretIDAccessorEntry b s2 (stampTimes b template) secretIDHMAC p = (None, e, s3)
         \<and> nonLockedSetSecretIDStorageEntry b s3 p roleNameHMAC secretIDHMAC (Some e) = (None, s')"
proof -
  from assms obtain secretIDHMAC where h1: "createHMAC (hmacSHA256 b) hmacKey secretID = Inr secretIDHMAC"
    by (auto simp: registerSecretIDEntry_def split: sum.splits)
  from assms h1 obtain roleNameHMAC where h2: "createHMAC (hmacSHA256 b) hmacKey roleName = Inr roleNameHMAC"
    by (auto simp: registerSecretIDEntry_def split: sum.splits)
  let ?k = "entryIndexOf p roleNameHMAC secretIDHMAC"
  obtain r1 s1 where r1: "nonLockedSecretIDStorageEntry b s p roleNameHMAC secretIDHMAC = (r1, s1)"
    by (cases "nonLockedSecretIDStorageEntry b s p roleNameHMAC secretIDHMAC")
  from assms h1 h2 r1 have r1n: "r1 = Inr None"
    by (auto simp: registerSecretIDEntry_def split: sum.splits option.splits)
  with r1 have s1: "s1 = logged s (GetCall ?k)"
    by (simp add: read_nothing_iff)
  obtain r2 s2 where r2: "nonLockedSecretIDStorageEntry b (lockSwitch s1) p roleNameHMAC secretIDHMAC = (r2, s2)"
    by (cases "nonLockedSecretIDStorageEntry b (lockSwitch s1) p roleNameHMAC secretIDHMAC")
  from assms h1 h2 r1 r1n r2 have r2n: "r2 = Inr None"
    by (auto simp: registerSecretIDEntry_def split: sum.splits option.splits)
  from assms h1 h2 r1 r1n r2 r2n obtain template where t: "secretEntry = Some template"
    by (cases secretEntry) (auto simp: registerSecretIDEntry_def)
  obtain c e3 s3 where c: "createSecretIDAccessorEntry b s2 (stampTimes b template) secretIDHMAC p = (c, e3, s3)"
    by (cases "createSecretIDAccessorEntry b s2 (stampTimes b template) secretIDHMAC p")
  have reg: "registerSecretIDEntry b lockSwitch s roleName secretID hmacKey p secretEntry =
      (case c of Some err \<Rightarrow> (Inl err, s3)
       | None \<Rightarrow> (case nonLockedSetSecretIDStorageEntry b s3 p roleNameHMAC secretIDHMAC (Some e3) of
                    (Some err, s4) \<Rightarrow> (Inl err, s4) | (None, s4) \<Rightarrow> (Inr e3, s4)))"
    unfolding t using h1 h2 r1 [unfolded r1n] r2 [unfolded r2n] c by (rule register_fresh)
  from assms reg have cn: "c = None" by (cases c) auto
  from assms reg cn have w: "nonLockedSetSecretIDStorageEntry b s3 p roleNameHMAC secretIDHMAC (Some e3) = (None, s')"
    and e3: "e3 = e"
    by (auto split: prod.splits option.splits)
  from h1 h2 r1 r1n s1 r2 r2n t c cn w e3 show ?thesis by blast
qed

lemma register_accessor_failure:
  assumes h1: "createHMAC (hmacSHA256 b) hmacKey secretID = Inr secretIDHMAC"
      and h2: "createHMAC (hmacSHA256 b) hmacKey roleName = Inr roleNameHMAC"
      and r1: "nonLockedSecretIDStorageEntry b s p roleNameHMAC secretIDHMAC = (Inr None, s1)"
      and r2: "nonLockedSecretIDStorageEntry b (lockSwitch s1) p roleNameHMAC secretIDHMAC = (Inr None, s2)"
      and c: "createSecretIDAccessorEntry b s2 template secretIDHMAC p = (Some err, e3, s3)"
  shows "registerSecretIDEntry b lockSwitch s roleName secretID hmacKey p (Some template) = (Inl err, s3)"
proof -
  have "\<exists>e4. createSecretIDAccessorEntry b s2 e secretIDHMAC p = (Some err, e4, s3)" for e
    using create_accessor_entry_irrelevant [of b s2 e secretIDHMAC p template] c
    by (cases "createSecretIDAccessorEntry b s2 e secretIDHMAC p") simp
  then obtain e4 where "createSecretIDAccessorEntry b s2 (stampTimes b template) secretIDHMAC p = (Some err, e4, s3)"
    by blast
  from register_fresh [where lockSwitch = lockSwitch, OF h1 h2 r1 r2 this] show ?thesis by simp
qed

text \<open>
  C2. In every successful run of \<open>registerSecretIDEntry\<close> the storage calls after the
  lock switch are the second read, then the Put of the accessor index entry, then the
  Put of the primary entry, in that order. If creating the accessor entry fails,
  registration returns that error, the stored entries are those of the moment after the
  lock switch, and the primary key is still absent.
\<close>

theorem accessor_written_before_primary:
  "(\<forall>e s'. registerSecretIDEntry b lockSwitch s roleName secretID hmacKey p secretEntry = (Inr e, s') \<longrightarrow>
      (\<exists>secretIDHMAC roleNameHMAC accessor saltID accessorValue entryValue.
          createHMAC (hmacSHA256 b) hmacKey secretID = Inr secretIDHMAC
        \<and> createHMAC (hmacSHA256 b) hmacKey roleName = Inr roleNameHMAC
        \<and> generateUUID b = Inr accessor \<and> salt b = Inr saltID
        \<and> accessorEntryJSON b \<lparr>SecretIDHMAC = secretIDHMAC\<rparr> = Inr accessorValue
        \<and> secretIDEntryJSON b e = Inr entryValue
        \<and> calls s' =
            calls (lockSwitch (logged s (GetCall (entryIndexOf p roleNameHMAC secretIDHMAC))))
            @ [GetCall (entryIndexOf p roleNameHMAC secretIDHMAC),
               PutCall (accessorPrefixOf b p @ saltID accessor) accessorValue,
               PutCall (entryIndexOf p roleNameHMAC secretIDHMAC) entryValue]))
   \<and> (\<forall>secretIDHMAC roleNameHMAC s1 s2 template err e3 s3.
          createHMAC (hmacSHA256 b) hmacKey secretID = Inr secretIDHMAC
        \<and> createHMAC (hmacSHA256 b) hmacKey roleName = Inr roleNameHMAC
        \<and> nonLockedSecretIDStorageEntry b s p roleNameHMAC secretIDHMAC = (Inr None, s1)
        \<and> nonLockedSecretIDStorageEntry b (lockSwitch s1) p roleNameHMAC secretIDHMAC = (Inr None, s2)
        \<and> secretEntry = Some template
        \<and> createSecretIDAccessorEntry b s2 template secretIDHMAC p = (Some err, e3, s3)
        \<longrightarrow> registerSecretIDEntry b lockSwitch s roleName secretID hmacKey p secretEntry = (Inl err, s3)
            \<and> entries s3 = entries (lockSwitch s1)
            \<and> map_of (entries s3) (entryIndexOf p roleNameHMAC secretIDHMAC) = None)"
proof (intro conjI allI impI)
  fix e s'
  assume "registerSecretIDEntry b lockSwitch s roleName secretID hmacKey p secretEntry = (Inr e, s')"
  from register_success [OF this]
  obtain secretIDHMAC roleNameHMAC template s2 s3 where
        h1: "createHMAC (hmacSHA256 b) hmacKey secretID = Inr secretIDHMAC"
    and h2: "createHMAC (hmacSHA256 b) hmacKey roleName = Inr roleNameHMAC"
    and r2: "nonLockedSecretIDStorageEntry b
              (lockSwitch (logged s (GetCall (entryIndexOf p roleNameHMAC secretIDHMAC))))
              p roleNameHMAC secretIDHMAC = (Inr None, s2)"
    and c: "createSecretIDAccessorEntry b s2 (stampTimes b template) secretIDHMAC p = (None, e, s3)"
    and w: "nonLockedSetSecretIDStorageEntry b s3 p roleNameHMAC secretIDHMAC (Some e) = (None, s')"
    by blast
  let ?k = "entryIndexOf p roleNameHMAC secretIDHMAC"
  from r2 have s2: "s2 = logged (lockSwitch (logged s (GetCall ?k))) (GetCall ?k)"
    by (simp add: read_nothing_iff)
  from c obtain accessor saltID accessorValue where
        u: "generateUUID b = Inr accessor" and sa: "salt b = Inr saltID"
    and av: "accessorEntryJSON b \<lparr>SecretIDHMAC = secretIDHMAC\<rparr> = Inr accessorValue"
    and p1: "storage_Put s2 (accessorPrefixOf b p @ saltID accessor) accessorValue = (None, s3)"
    unfolding create_accessor_ok_iff by blast
  from w obtain entryValue where ev: "secretIDEntryJSON b e = Inr entryValue"
    and p2: "storage_Put s3 ?k entryValue = (None, s')"
    unfolding set_cases by blast
  from p1 have c3: "calls s3 = calls s2 @ [PutCall (accessorPrefixOf b p @ saltID accessor) accessorValue]"
    by (simp add: storage_Put_ok_iff logged_def)
  from p2 have c4: "calls s' = calls s3 @ [PutCall ?k entryValue]"
    by (simp add: storage_Put_ok_iff logged_def)
  have "calls s' = calls (lockSwitch (logged s (GetCall ?k)))
            @ [GetCall ?k, PutCall (accessorPrefixOf b p @ saltID accessor) accessorValue,
               PutCall ?k entryValue]"
    by (simp add: c4 c3 s2 logged_def)
  with h1 h2 u sa av ev
  show "\<exists>secretIDHMAC roleNameHMAC accessor saltID accessorValue entryValue.
          createHMAC (hmacSHA256 b) hmacKey secretID = Inr secretIDHMAC
        \<and> createHMAC (hmacSHA256 b) hmacKey roleName = Inr roleNameHMAC
        \<and> generateUUID b = Inr accessor \<and> salt b = Inr saltID
        \<and> accessorEntryJSON b \<lparr>SecretIDHMAC = secretIDHMAC\<rparr> = Inr accessorValue
        \<and> secretIDEntryJSON b e = Inr entryValue
        \<and> calls s' =
            calls (lockSwitch (logged s (GetCall (entryIndexOf p roleNameHMAC secretIDHMAC))))
            @ [GetCall (entryIndexOf p roleNameHMAC secretIDHMAC),
               PutCall (accessorPrefixOf b p @ saltID accessor) accessorValue,
               PutCall (entryIndexOf p roleNameHMAC secretIDHMAC) entryValue]"
    by blast
next
  fix secretIDHMAC roleNameHMAC s1 s2 template err e3 s3
  assume a: "createHMAC (hmacSHA256 b) hmacKey secretID = Inr secretIDHMAC
        \<and> createHMAC (hmacSHA256 b) hmacKey roleName = Inr roleNameHMAC
        \<and> nonLockedSecretIDStorageEntry b s p roleNameHMAC secretIDHMAC = (Inr None, s1)
        \<and> nonLockedSecretIDStorageEntry b (lockSwitch s1) p roleNameHMAC secretIDHMAC = (Inr None, s2)
        \<and> secretEntry = Some template
        \<and> createSecretIDAccessorEntry b s2 template secretIDHMAC p = (Some err, e3, s3)"
  then have r2: "nonLockedSecretIDStorageEntry b (lockSwitch s1) p roleNameHMAC secretIDHMAC = (Inr None, s2)"
    and c: "createSecretIDAccessorEntry b s2 template secretIDHMAC p = (Some err, e3, s3)"
    by simp_all
  from a show "registerSecretIDEntry b lockSwitch s roleName secretID hmacKey p secretEntry = (Inl err, s3)"
    by (auto intro: register_accessor_failure)
  from r2 have e2: "entries s2 = entries (lockSwitch s1)"
    and n2: "map_of (entries (lockSwitch s1)) (entryIndexOf p roleNameHMAC secretIDHMAC) = None"
    by (simp_all add: read_nothing_iff logged_def)
  from create_accessor_failed [OF c] have e3: "entries s3 = entries s2" by blast
  from e2 e3 show "entries s3 = entries (lockSwitch s1)" by simp
  with n2 show "map_of (entries s3) (entryIndexOf p roleNameHMAC secretIDHMAC) = None" by simp
qed





lemmas example_defs =
  registerSecretIDEntry_def createHMAC_def maxHmacInputLength_def exampleBackend_def
  hextable_def nonLockedSecretIDStorageEntry_def entryIndexOf_def storage_Get_def faultOf_def
  noFaults_def logged_def stampTimes_def deriveSecretIDTTL_def word_sless_alt time_Add_def
  createSecretIDAccessorEntry_def accessorPrefixOf_def storage_Put_def
  nonLockedSetSecretIDStorageEntry_def decodeSecretIDStorageEntry_def decodeStored_def
  cleanup_def upgradeNumUses_def Let_def

lemma run_fresh:
  "registerSecretIDEntry exampleBackend id emptyStorage ''r'' ''s'' ''k'' ''secret_id/'' (Some exampleTemplate)
     = (Inr (exampleTemplate\<lparr>SecretIDAccessor := ''u1'', CreationTime := 1000, LastUpdatedTime := 1000\<rparr>),
        \<lparr>entries = [(''accessor/salted-u1'', AccessorRecord \<lparr>SecretIDHMAC = ''6b73''\<rparr>),
                    (''secret_id/6b72/6b73'',
                     SecretIDRecord (exampleTemplate\<lparr>SecretIDAccessor := ''u1'', CreationTime := 1000, LastUpdatedTime := 1000\<rparr>))],
         calls = [GetCall ''secret_id/6b72/6b73'', GetCall ''secret_id/6b72/6b73'',
                  PutCall ''accessor/salted-u1'' (AccessorRecord \<lparr>SecretIDHMAC = ''6b73''\<rparr>),
                  PutCall ''secret_id/6b72/6b73''
                    (SecretIDRecord (exampleTemplate\<lparr>SecretIDAccessor := ''u1'', CreationTime := 1000, LastUpdatedTime := 1000\<rparr>))],
         faults = noFaults\<rparr>)"
  by (simp add: example_defs emptyStorage_def exampleTemplate_def)



lemma example_digests:
  "createHMAC (hmacSHA256 exampleBackend) ''k'' ''s'' = Inr ''6b73''"
  "createHMAC (hmacSHA256 exampleBackend) ''k'' ''r'' = Inr ''6b72''"
  by (simp_all add: example_defs)



theorem accessor_written_before_primary_witness:
  "calls (snd (registerSecretIDEntry exampleBackend id emptyStorage ''r'' ''s'' ''k'' ''secret_id/''
                 (Some exampleTemplate)))
     = [GetCall ''secret_id/6b72/6b73'', GetCall ''secret_id/6b72/6b73'',
        PutCall ''accessor/salted-u1'' (AccessorRecord \<lparr>SecretIDHMAC = ''6b73''\<rparr>),
        PutCall ''secret_id/6b72/6b73''
          (SecretIDRecord (exampleTemplate\<lparr>SecretIDAccessor := ''u1'', CreationTime := 1000,
                                             LastUpdatedTime := 1000\<rparr>))]
   \<and> registerSecretIDEntry exampleBackend id unreliableStorage ''r'' ''s'' ''k'' ''secret_id/''
        (Some exampleTemplate)
     = (Inl (Wrapped ''failed to persist accessor index entry'' (ExternalError ''backend unavailable'')),
        \<lparr>entries = [],
         calls = [GetCall ''secret_id/6b72/6b73'', GetCall ''secret_id/6b72/6b73'',
                  PutCall ''accessor/salted-u1'' (AccessorRecord \<lparr>SecretIDHMAC = ''6b73''\<rparr>)],
         faults = thirdCallFails\<rparr>)"
proof -
  note inst = accessor_written_before_primary [where b = exampleBackend and hmacKey = "''k''"
      and secretID = "''s''" and roleName = "''r''" and p = "''secret_id/''"
      and secretEntry = "Some exampleTemplate" and lockSwitch = id]
  let ?E = "exampleTemplate\<lparr>SecretIDAccessor := ''u1'', CreationTime := 1000, LastUpdatedTime := 1000\<rparr>"
  from inst [where s = emptyStorage, THEN conjunct1, rule_format, OF run_fresh]
  obtain secretIDHMAC roleNameHMAC accessor saltID accessorValue entryValue where
        h1: "createHMAC (hmacSHA256 exampleBackend) ''k'' ''s'' = Inr secretIDHMAC"
    and h2: "createHMAC (hmacSHA256 exampleBackend) ''k'' ''r'' = Inr roleNameHMAC"
    and u: "generateUUID exampleBackend = Inr accessor"
    and sa: "salt exampleBackend = Inr saltID"
    and av: "accessorEntryJSON exampleBackend \<lparr>SecretIDHMAC = secretIDHMAC\<rparr> = Inr accessorValue"
    and ev: "secretIDEntryJSON exampleBackend ?E = Inr entryValue"
    and cs: "calls \<lparr>entries = [(''accessor/salted-u1'', AccessorRecord \<lparr>SecretIDHMAC = ''6b73''\<rparr>),
                    (''secret_id/6b72/6b73'', SecretIDRecord ?E)],
         calls = [GetCall ''secret_id/6b72/6b73'', GetCall ''secret_id/6b72/6b73'',
                  PutCall ''accessor/salted-u1'' (AccessorRecord \<lparr>SecretIDHMAC = ''6b73''\<rparr>),
                  PutCall ''secret_id/6b72/6b73'' (SecretIDRecord ?E)],
         faults = noFaults\<rparr> =
            calls (id (logged emptyStorage (GetCall (entryIndexOf ''secret_id/'' roleNameHMAC secretIDHMAC))))
            @ [GetCall (entryIndexOf ''secret_id/'' roleNameHMAC secretIDHMAC),
               PutCall (accessorPrefixOf exampleBackend ''secret_id/'' @ saltID accessor) accessorValue,
               PutCall (entryIndexOf ''secret_id/'' roleNameHMAC secretIDHMAC) entryValue]"
    by blast
  from h1 h2 have sh: "secretIDHMAC = ''6b73''" and rn: "roleNameHMAC = ''6b72''"
    by (simp_all add: example_digests)
  from u have acc: "accessor = ''u1''" by (simp add: exampleBackend_def)
  from sa have sid: "saltID = (\<lambda>a. ''salted-'' @ a)" by (auto simp: exampleBackend_def)
  from av sh have avv: "accessorValue = AccessorRecord \<lparr>SecretIDHMAC = ''6b73''\<rparr>"
    by (simp add: exampleBackend_def)
  from ev have evv: "entryValue = SecretIDRecord ?E" by (simp add: exampleBackend_def)
  have c1: "calls (snd (registerSecretIDEntry exampleBackend id emptyStorage ''r'' ''s'' ''k'' ''secret_id/''
                 (Some exampleTemplate)))
     = calls (id (logged emptyStorage (GetCall (entryIndexOf ''secret_id/'' roleNameHMAC secretIDHMAC))))
            @ [GetCall (entryIndexOf ''secret_id/'' roleNameHMAC secretIDHMAC),
               PutCall (accessorPrefixOf exampleBackend ''secret_id/'' @ saltID accessor) accessorValue,
               PutCall (entryIndexOf ''secret_id/'' roleNameHMAC secretIDHMAC) entryValue]"
    unfolding run_fresh snd_conv by (rule cs)
  have c1': "calls (snd (registerSecretIDEntry exampleBackend id emptyStorage ''r'' ''s'' ''k'' ''secret_id/''
                 (Some exampleTemplate)))
     = [GetCall ''secret_id/6b72/6b73'', GetCall ''secret_id/6b72/6b73'',
        PutCall ''accessor/salted-u1'' (AccessorRecord \<lparr>SecretIDHMAC = ''6b73''\<rparr>),
        PutCall ''secret_id/6b72/6b73'' (SecretIDRecord ?E)]"
    unfolding c1 sh rn acc sid avv evv
    by (simp add: example_key logged_def emptyStorage_def accessorPrefixOf_def exampleBackend_def)
  let ?s1 = "logged unreliableStorage (GetCall ''secret_id/6b72/6b73'')"
  let ?s2 = "logged (id ?s1) (GetCall ''secret_id/6b72/6b73'')"
  let ?s3 = "\<lparr>entries = [],
         calls = [GetCall ''secret_id/6b72/6b73'', GetCall ''secret_id/6b72/6b73'',
                  PutCall ''accessor/salted-u1'' (AccessorRecord \<lparr>SecretIDHMAC = ''6b73''\<rparr>)],
         faults = thirdCallFails\<rparr>"
  have r1: "nonLockedSecretIDStorageEntry exampleBackend unreliableStorage ''secret_id/'' ''6b72'' ''6b73''
              = (Inr None, ?s1)"
    by (simp add: read_nothing_iff example_key faultOf_def unreliableStorage_def thirdCallFails_def)
  have r2: "nonLockedSecretIDStorageEntry exampleBackend (id ?s1) ''secret_id/'' ''6b72'' ''6b73''
              = (Inr None, ?s2)"
    by (simp add: read_nothing_iff example_key faultOf_def unreliableStorage_def thirdCallFails_def
        logged_def)
  have c: "createSecretIDAccessorEntry exampleBackend ?s2 exampleTemplate ''6b73'' ''secret_id/''
             = (Some (Wrapped ''failed to persist accessor index entry'' (ExternalError ''backend unavailable'')),
                exampleTemplate\<lparr>SecretIDAccessor := ''u1''\<rparr>, ?s3)"
    by (simp add: createSecretIDAccessorEntry_def exampleBackend_def accessorPrefixOf_def
        storage_Put_def faultOf_def logged_def unreliableStorage_def thirdCallFails_def)
  from inst [where s = unreliableStorage, THEN conjunct2, rule_format,
      of "''6b73''" "''6b72''" ?s1 ?s2 exampleTemplate _ _ ?s3]
    example_digests r1 r2 c
  have c2: "registerSecretIDEntry exampleBackend id unreliableStorage ''r'' ''s'' ''k'' ''secret_id/''
        (Some exampleTemplate)
     = (Inl (Wrapped ''failed to persist accessor index entry'' (ExternalError ''backend unavailable'')), ?s3)"
    by blast
  from c1' c2 show ?thesis by simp
qed




subsection \<open>Bulk flush\<close>

lemma map_of_fold_delete:
  "map_of (fold AList.delete ks al) k = (if k \<in> set ks then None else map_of al k)"
  by (induction ks arbitrary: al) (auto simp: delete_conv')

lemma flushLoop_stops:
  assumes "\<forall>i < length ds. faults s (length (calls s) + i) (DeleteCall (entryIndexOf p rn (ds ! i))) = None"
      and "faults s (length (calls s) + length ds) (DeleteCall (entryIndexOf p rn h)) = Some msg"
  shows "flushLoop s p rn (ds @ h # rest) =
           (Some (ErrorDeletingSecretID h (ExternalError msg)),
            s\<lparr>entries := fold AList.delete (map (entryIndexOf p rn) ds) (entries s),
              calls := calls s @ map (\<lambda>d. DeleteCall (entryIndexOf p rn d)) (ds @ [h])\<rparr>)"
  using assms
proof (induction ds arbitrary: s)
  case Nil
  then show ?case
    by (simp add: storage_Delete_def faultOf_def logged_def)
next
  case (Cons d ds)
  let ?s1 = "(logged s (DeleteCall (entryIndexOf p rn d)))\<lparr>entries := AList.delete (entryIndexOf p rn d) (entries s)\<rparr>"
  from Cons.prems(1) have d0: "faults s (length (calls s)) (DeleteCall (entryIndexOf p rn d)) = None"
    by force
  then have del: "storage_Delete s (entryIndexOf p rn d) = (None, ?s1)"
    by (simp add: storage_Delete_def faultOf_def)
  have a1: "\<forall>i < length ds. faults ?s1 (length (calls ?s1) + i) (DeleteCall (entryIndexOf p rn (ds ! i))) = None"
  proof (intro allI impI)
    fix i assume "i < length ds"
    then have "Suc i < length (d # ds)" by simp
    with Cons.prems(1) have "faults s (length (calls s) + Suc i) (DeleteCall (entryIndexOf p rn ((d # ds) ! Suc i))) = None"
      by blast
    then show "faults ?s1 (length (calls ?s1) + i) (DeleteCall (entryIndexOf p rn (ds ! i))) = None"
      by (simp add: logged_def)
  qed
  from Cons.prems(2)
  have a2: "faults ?s1 (length (calls ?s1) + length ds) (DeleteCall (entryIndexOf p rn h)) = Some msg"
    by (simp add: logged_def)
  from Cons.IH [OF a1 a2] del show ?case
    by (simp add: logged_def)
qed

text \<open>
  C5, as amended. When a storage delete fails partway through \<open>flushRoleSecrets\<close>, the
  operation stops at the first error and returns that error, wrapped with the digest of
  the SecretID whose delete failed; the function's only result is the error, and no
  count is returned. The entries deleted before the failure remain deleted (no
  rollback), every other entry is as it was, and no delete is attempted after the one
  that failed. In the statement the listing is the next storage call, the deletes are
  the calls after it, the backend accepts the deletes of \<open>deleted\<close> and refuses the
  delete of \<open>failing\<close>.
\<close>

theorem flush_stops_at_first_failure:
  assumes "createHMAC (hmacSHA256 b) hmacKey roleName = Inr roleNameHMAC"
      and "storage_List s (p @ roleNameHMAC @ ''/'') = (Inr (deleted @ failing # rest), s1)"
      and "\<forall>i < length deleted.
             faults s (Suc (length (calls s)) + i)
               (DeleteCall (entryIndexOf p roleNameHMAC (deleted ! i))) = None"
      and "faults s (Suc (length (calls s)) + length deleted)
             (DeleteCall (entryIndexOf p roleNameHMAC failing)) = Some msg"
  shows "fst (flushRoleSecrets b s roleName hmacKey p)
           = Some (ErrorDeletingSecretID failing (ExternalError msg))
       \<and> (\<forall>k. map_of (entries (snd (flushRoleSecrets b s roleName hmacKey p))) k
              = (if k \<in> entryIndexOf p roleNameHMAC ` set deleted then None
                 else map_of (entries s) k))
       \<and> calls (snd (flushRoleSecrets b s roleName hmacKey p))
           = calls s @ ListCall (p @ roleNameHMAC @ ''/'')
               # map (\<lambda>d. DeleteCall (entryIndexOf p roleNameHMAC d)) (deleted @ [failing])"
proof -
  from assms(2) have s1: "s1 = logged s (ListCall (p @ roleNameHMAC @ ''/''))"
    by (auto simp: storage_List_def split: option.splits)
  have a1: "\<forall>i < length deleted. faults s1 (length (calls s1) + i)
               (DeleteCall (entryIndexOf p roleNameHMAC (deleted ! i))) = None"
    using assms(3) by (simp add: s1 logged_def)
  have a2: "faults s1 (length (calls s1) + length deleted)
             (DeleteCall (entryIndexOf p roleNameHMAC failing)) = Some msg"
    using assms(4) by (simp add: s1 logged_def)
  have "flushRoleSecrets b s roleName hmacKey p =
          flushLoop s1 p roleNameHMAC (deleted @ failing # rest)"
    using assms(1,2) by (simp add: flushRoleSecrets_def)
  also note flushLoop_stops [OF a1 a2]
  finally show ?thesis
    by (simp add: s1 logged_def map_of_fold_delete)
qed

lemma list_two:
  "childKeys ''secret_id/6b72/'' [''secret_id/6b72/aa'', ''secret_id/6b72/bb''] = [''aa'', ''bb'']"
  by code_simp

lemma list_one:
  "childKeys ''secret_id/6b72/'' [''secret_id/6b72/bb''] = [''bb'']"
  by code_simp

lemma run_flush_two:
  "flushRoleSecrets exampleBackend twoSecrets ''r'' ''k'' ''secret_id/'' =
     (Some (ErrorDeletingSecretID ''bb'' (ExternalError ''backend unavailable'')),
      \<lparr>entries = [(''secret_id/6b72/bb'', SecretIDRecord exampleTemplate)],
       calls = [ListCall ''secret_id/6b72/'', DeleteCall ''secret_id/6b72/aa'',
                DeleteCall ''secret_id/6b72/bb''],
       faults = deleteOfBBFails\<rparr>)"
  by (simp add: flushRoleSecrets_def example_digests storage_List_def faultOf_def twoSecrets_def
      deleteOfBBFails_def logged_def list_two storage_Delete_def entryIndexOf_def)

lemma run_flush_one:
  "flushRoleSecrets exampleBackend oneSecret ''r'' ''k'' ''secret_id/'' =
     (Some (ErrorDeletingSecretID ''bb'' (ExternalError ''backend unavailable'')),
      \<lparr>entries = [(''secret_id/6b72/bb'', SecretIDRecord exampleTemplate)],
       calls = [ListCall ''secret_id/6b72/'', DeleteCall ''secret_id/6b72/bb''],
       faults = deleteOfBBFails\<rparr>)"
  by (simp add: flushRoleSecrets_def example_digests storage_List_def faultOf_def oneSecret_def
      deleteOfBBFails_def logged_def list_one storage_Delete_def entryIndexOf_def)

text \<open>
  C5 as stated fails: a flush that deleted one entry before the failure and a flush
  that deleted none return the same value, so the result carries no count of the
  entries deleted so far.
\<close>

theorem flush_returns_no_count:
  "fst (flushRoleSecrets exampleBackend twoSecrets ''r'' ''k'' ''secret_id/'')
     = Some (ErrorDeletingSecretID ''bb'' (ExternalError ''backend unavailable''))
   \<and> fst (flushRoleSecrets exampleBackend oneSecret ''r'' ''k'' ''secret_id/'')
     = Some (ErrorDeletingSecretID ''bb'' (ExternalError ''backend unavailable''))
   \<and> map fst (entries twoSecrets) = [''secret_id/6b72/aa'', ''secret_id/6b72/bb'']
   \<and> map fst (entries (snd (flushRoleSecrets exampleBackend twoSecrets ''r'' ''k'' ''secret_id/'')))
       = [''secret_id/6b72/bb'']
   \<and> map fst (entries oneSecret) = [''secret_id/6b72/bb'']
   \<and> map fst (entries (snd (flushRoleSecrets exampleBackend oneSecret ''r'' ''k'' ''secret_id/'')))
       = [''secret_id/6b72/bb'']"
  unfolding run_flush_two run_flush_one by (simp add: twoSecrets_def oneSecret_def)

theorem flush_stops_at_first_failure_witness:
  "storage_List twoSecrets ''secret_id/6b72/''
     = (Inr ([''aa''] @ ''bb'' # []), logged twoSecrets (ListCall ''secret_id/6b72/''))
   \<and> fst (flushRoleSecrets exampleBackend twoSecrets ''r'' ''k'' ''secret_id/'')
       = Some (ErrorDeletingSecretID ''bb'' (ExternalError ''backend unavailable''))
   \<and> map_of (entries (snd (flushRoleSecrets exampleBackend twoSecrets ''r'' ''k'' ''secret_id/'')))
        ''secret_id/6b72/aa'' = None
   \<and> map_of (entries (snd (flushRoleSecrets exampleBackend twoSecrets ''r'' ''k'' ''secret_id/'')))
        ''secret_id/6b72/bb'' = Some (SecretIDRecord exampleTemplate)
   \<and> calls (snd (flushRoleSecrets exampleBackend twoSecrets ''r'' ''k'' ''secret_id/''))
       = [ListCall ''secret_id/6b72/'', DeleteCall ''secret_id/6b72/aa'',
          DeleteCall ''secret_id/6b72/bb'']"
proof -
  have l: "storage_List twoSecrets (''secret_id/'' @ ''6b72'' @ ''/'')
     = (Inr ([''aa''] @ ''bb'' # []), logged twoSecrets (ListCall ''secret_id/6b72/''))"
    by (simp add: storage_List_def faultOf_def twoSecrets_def deleteOfBBFails_def list_two)
  have ok: "\<forall>i < length [''aa''].
             faults twoSecrets (Suc (length (calls twoSecrets)) + i)
               (DeleteCall (entryIndexOf ''secret_id/'' ''6b72'' ([''aa''] ! i))) = None"
    by (simp add: twoSecrets_def deleteOfBBFails_def entryIndexOf_def)
  have bad: "faults twoSecrets (Suc (length (calls twoSecrets)) + length [''aa''])
             (DeleteCall (entryIndexOf ''secret_id/'' ''6b72'' ''bb'')) = Some ''backend unavailable''"
    by (simp add: twoSecrets_def deleteOfBBFails_def entryIndexOf_def)
  from flush_stops_at_first_failure [OF example_digests(2) l ok bad]
  have "fst (flushRoleSecrets exampleBackend twoSecrets ''r'' ''k'' ''secret_id/'')
           = Some (ErrorDeletingSecretID ''bb'' (ExternalError ''backend unavailable''))"
    and "map_of (entries (snd (flushRoleSecrets exampleBackend twoSecrets ''r'' ''k'' ''secret_id/'')))
            ''secret_id/6b72/aa'' = None"
    and "map_of (entries (snd (flushRoleSecrets exampleBackend twoSecrets ''r'' ''k'' ''secret_id/'')))
            ''secret_id/6b72/bb'' = Some (SecretIDRecord exampleTemplate)"
    and "calls (snd (flushRoleSecrets exampleBackend twoSecrets ''r'' ''k'' ''secret_id/''))
       = [ListCall ''secret_id/6b72/'', DeleteCall ''secret_id/6b72/aa'',
          DeleteCall ''secret_id/6b72/bb'']"
    by (simp_all add: entryIndexOf_def twoSecrets_def)
  with l show ?thesis by simp
qed

subsection \<open>CIDR subset validation\<close>

lemma strings_Contains_slash: "strings_Contains s ''/'' \<longleftrightarrow> CHR ''/'' \<in> set s"
  by (induction s) auto

text \<open>The backing array after the first \<open>n\<close> turns of the loop.\<close>

lemma masked_step:
  assumes "off + n < length A"
  shows "(take off A @ map f (take n (drop off A)) @ drop (off + n) A)[off + n := f (A ! (off + n))]
           = take off A @ map f (take (Suc n) (drop off A)) @ drop (off + Suc n) A"
proof -
  from assms have d: "drop (off + n) A = A ! (off + n) # drop (off + Suc n) A"
    by (simp add: Cons_nth_drop_Suc)
  from assms have t: "take (Suc n) (drop off A) = take n (drop off A) @ [A ! (off + n)]"
    by (simp add: take_Suc_conv_app_nth)
  from assms have l: "length (take off A @ map f (take n (drop off A))) = off + n"
    by simp
  have "((take off A @ map f (take n (drop off A))) @ A ! (off + n) # drop (off + Suc n) A)
          [length (take off A @ map f (take n (drop off A))) := f (A ! (off + n))]
          = (take off A @ map f (take n (drop off A))) @ f (A ! (off + n)) # drop (off + Suc n) A"
    by (rule list_update_length)
  then show ?thesis
    unfolding l d t by simp
qed

lemma masked_nth:
  assumes "off + n < length A"
  shows "(take off A @ map f (take n (drop off A)) @ drop (off + n) A) ! (off + n) = A ! (off + n)"
proof -
  from assms have l: "length (take off A @ map f (take n (drop off A))) = off + n"
    by simp
  have "((take off A @ map f (take n (drop off A))) @ drop (off + n) A) ! (off + n)
          = drop (off + n) A ! 0"
    using l by (metis add.right_neutral nth_append_length_plus)
  with assms show ?thesis by simp
qed

lemma appendMask_turns:
  assumes "array sl < length h" and "offset sl + n \<le> length (h ! array sl)"
  shows "fold (appendMask sl) [0 ..< n] h
           = h[array sl := take (offset sl) (h ! array sl)
                            @ map spec_withHostMask (take n (drop (offset sl) (h ! array sl)))
                            @ drop (offset sl + n) (h ! array sl)]"
  using assms(2)
proof (induction n)
  case 0
  show ?case by simp
next
  case (Suc n)
  let ?A = "h ! array sl"
  let ?B = "take (offset sl) ?A @ map spec_withHostMask (take n (drop (offset sl) ?A))
              @ drop (offset sl + n) ?A"
  from Suc.prems have lt: "offset sl + n < length ?A" by simp
  then have IH: "fold (appendMask sl) [0 ..< n] h = h[array sl := ?B]"
    using Suc.IH by simp
  have blk: "sliceIndex (h[array sl := ?B]) sl n = ?A ! (offset sl + n)"
    using assms(1) masked_nth [OF lt] by (simp add: sliceIndex_def)
  have "appendMask sl n (h[array sl := ?B])
          = h[array sl := ?B[offset sl + n := spec_withHostMask (?A ! (offset sl + n))]]"
  proof (cases "CHR ''/'' \<in> set (?A ! (offset sl + n))")
    case True
    have "?B[offset sl + n := ?B ! (offset sl + n)] = ?B" by (rule list_update_id)
    with True have "?B[offset sl + n := spec_withHostMask (?A ! (offset sl + n))] = ?B"
      unfolding masked_nth [OF lt, of spec_withHostMask]
      by (simp add: spec_withHostMask_def)
    with True show ?thesis
      unfolding appendMask_def blk Let_def
      by (simp add: strings_Contains_slash)
  next
    case False
    then show ?thesis
      unfolding appendMask_def blk Let_def
      using assms(1)
      by (simp add: strings_Contains_slash sliceStore_def spec_withHostMask_def)
  qed
  also note masked_step [OF lt, of spec_withHostMask]
  finally show ?case
    by (simp add: IH)
qed

lemma appendMasks_heap:
  assumes "validSlice h sl"
  shows "appendMasks sl h
           = h[array sl := take (offset sl) (h ! array sl)
                            @ map spec_withHostMask (sliceElems h sl)
                            @ drop (offset sl + len sl) (h ! array sl)]"
  using assms appendMask_turns [of sl h "len sl"]
  by (simp add: appendMasks_def validSlice_def sliceElems_def)

lemma appendMasks_own_slice:
  assumes "validSlice h sl"
  shows "sliceElems (appendMasks sl h) sl = map spec_withHostMask (sliceElems h sl)"
proof -
  from assms have a: "array sl < length h" and b: "offset sl + len sl \<le> length (h ! array sl)"
    by (simp_all add: validSlice_def)
  from b have "length (map spec_withHostMask (sliceElems h sl)) = len sl"
    by (simp add: sliceElems_def)
  with a b show ?thesis
    unfolding appendMasks_heap [OF assms]
    by (simp add: sliceElems_def [of "h[_ := _]"])
qed


text \<open>
  C10. When both argument lists are non-empty, \<open>verifyCIDRRoleSecretIDSubset\<close> changes
  the backing array of the caller's \<open>roleBoundCIDRList\<close> in place: in the heap the
  function leaves behind, every element of that slice containing no "/" is the same
  element with "/32" appended, every other element of the slice is as it was, and
  nothing else in the heap has changed. The caller reads the slice from that heap.
\<close>

theorem role_slice_mutated_in_place:
  assumes "len secretIDCIDRs \<noteq> 0" and "len roleBoundCIDRList \<noteq> 0"
      and "validSlice h roleBoundCIDRList"
  shows "sliceElems (snd (verifyCIDRRoleSecretIDSubset subsetBlocks h secretIDCIDRs roleBoundCIDRList))
           roleBoundCIDRList
           = map spec_withHostMask (sliceElems h roleBoundCIDRList)
       \<and> snd (verifyCIDRRoleSecretIDSubset subsetBlocks h secretIDCIDRs roleBoundCIDRList)
           = h[array roleBoundCIDRList :=
                 take (offset roleBoundCIDRList) (h ! array roleBoundCIDRList)
                 @ map spec_withHostMask (sliceElems h roleBoundCIDRList)
                 @ drop (offset roleBoundCIDRList + len roleBoundCIDRList) (h ! array roleBoundCIDRList)]"
proof -
  have "snd (verifyCIDRRoleSecretIDSubset subsetBlocks h secretIDCIDRs roleBoundCIDRList)
          = appendMasks roleBoundCIDRList h"
    using assms(1,2)
    by (simp add: verifyCIDRRoleSecretIDSubset_def Let_def split: prod.splits)
  then show ?thesis
    using appendMasks_own_slice [OF assms(3)] appendMasks_heap [OF assms(3)] by simp
qed

theorem role_slice_mutated_in_place_witness:
  "len \<lparr>array = 0, offset = 0, len = 1\<rparr> \<noteq> 0
   \<and> len \<lparr>array = 1, offset = 1, len = 2\<rparr> \<noteq> 0
   \<and> validSlice [[''10.0.0.1/32''], [''192.168.0.7'', ''10.0.0.1'', ''10.1.0.0/16'']]
        \<lparr>array = 1, offset = 1, len = 2\<rparr>
   \<and> snd (verifyCIDRRoleSecretIDSubset cidrutil_SubsetBlocks
             [[''10.0.0.1/32''], [''192.168.0.7'', ''10.0.0.1'', ''10.1.0.0/16'']]
             \<lparr>array = 0, offset = 0, len = 1\<rparr> \<lparr>array = 1, offset = 1, len = 2\<rparr>)
       = [[''10.0.0.1/32''], [''192.168.0.7'', ''10.0.0.1/32'', ''10.1.0.0/16'']]"
proof -
  have h1: "len \<lparr>array = 0, offset = 0, len = 1\<rparr> \<noteq> 0"
    and h2: "len \<lparr>array = 1, offset = 1, len = 2\<rparr> \<noteq> 0" by simp_all
  have h3: "validSlice [[''10.0.0.1/32''], [''192.168.0.7'', ''10.0.0.1'', ''10.1.0.0/16'']]
        \<lparr>array = 1, offset = 1, len = 2\<rparr>"
    by (simp add: validSlice_def)
  from role_slice_mutated_in_place [OF h1 h2 h3, of cidrutil_SubsetBlocks]
  have "snd (verifyCIDRRoleSecretIDSubset cidrutil_SubsetBlocks
             [[''10.0.0.1/32''], [''192.168.0.7'', ''10.0.0.1'', ''10.1.0.0/16'']]
             \<lparr>array = 0, offset = 0, len = 1\<rparr> \<lparr>array = 1, offset = 1, len = 2\<rparr>)
       = [[''10.0.0.1/32''], [''192.168.0.7'', ''10.0.0.1/32'', ''10.1.0.0/16'']]"
    by (simp add: sliceElems_def spec_withHostMask_def)
  with h1 h2 h3 show ?thesis by blast
qed



lemma check_host_in_network:
  "cidrutil_SubsetBlocks [''10.0.0.0/24''] [''10.0.0.1/32''] = (True, None)"
  by code_simp


lemma check_other_network:
  "cidrutil_SubsetBlocks [''192.168.0.0/24''] [''10.0.0.1/32''] = (False, None)"
  by code_simp


lemma one_turn: "[0 ..< 1] = [0]"
  by (simp add: upt_rec)


text \<open>
  C7. \<open>verifyCIDRRoleSecretIDSubset\<close> returns success (nil), and changes nothing,
  whenever the role's bound CIDR list is empty or the SecretID's CIDR list is empty.
  When both are non-empty and the containment check does not confirm that the
  SecretID's blocks are a subset of the role's blocks (it answers false, or an error),
  the function fails with an error that lists both CIDR sets, as they were given to the
  check, and wraps the check's error; when the check confirms, it returns success.
\<close>

theorem verifyCIDRRoleSecretIDSubset_outcomes:
  "(len secretIDCIDRs = 0 \<or> len roleBoundCIDRList = 0
      \<longrightarrow> verifyCIDRRoleSecretIDSubset subsetBlocks h secretIDCIDRs roleBoundCIDRList = (None, h))
   \<and> (len secretIDCIDRs \<noteq> 0 \<and> len roleBoundCIDRList \<noteq> 0
       \<and> (\<not> fst (subsetBlocks (sliceElems (appendMasks roleBoundCIDRList h) roleBoundCIDRList)
                    (sliceElems (appendMasks roleBoundCIDRList h) secretIDCIDRs))
            \<or> snd (subsetBlocks (sliceElems (appendMasks roleBoundCIDRList h) roleBoundCIDRList)
                    (sliceElems (appendMasks roleBoundCIDRList h) secretIDCIDRs)) \<noteq> None)
      \<longrightarrow> fst (verifyCIDRRoleSecretIDSubset subsetBlocks h secretIDCIDRs roleBoundCIDRList)
            = Some (SubsetVerificationFailed
                      (sliceElems (appendMasks roleBoundCIDRList h) roleBoundCIDRList)
                      (sliceElems (appendMasks roleBoundCIDRList h) secretIDCIDRs)
                      (snd (subsetBlocks (sliceElems (appendMasks roleBoundCIDRList h) roleBoundCIDRList)
                              (sliceElems (appendMasks roleBoundCIDRList h) secretIDCIDRs)))))
   \<and> (len secretIDCIDRs \<noteq> 0 \<and> len roleBoundCIDRList \<noteq> 0
       \<and> subsetBlocks (sliceElems (appendMasks roleBoundCIDRList h) roleBoundCIDRList)
            (sliceElems (appendMasks roleBoundCIDRList h) secretIDCIDRs) = (True, None)
      \<longrightarrow> fst (verifyCIDRRoleSecretIDSubset subsetBlocks h secretIDCIDRs roleBoundCIDRList) = None)"
  by (auto simp: verifyCIDRRoleSecretIDSubset_def Let_def split: prod.splits)

theorem verifyCIDRRoleSecretIDSubset_outcomes_witness:
  "verifyCIDRRoleSecretIDSubset cidrutil_SubsetBlocks [[''10.0.0.1/32''], []]
       \<lparr>array = 0, offset = 0, len = 1\<rparr> \<lparr>array = 1, offset = 0, len = 0\<rparr>
     = (None, [[''10.0.0.1/32''], []])
   \<and> verifyCIDRRoleSecretIDSubset cidrutil_SubsetBlocks [[], [''10.0.0.0/24'']]
       \<lparr>array = 0, offset = 0, len = 0\<rparr> \<lparr>array = 1, offset = 0, len = 1\<rparr>
     = (None, [[], [''10.0.0.0/24'']])
   \<and> \<not> fst (cidrutil_SubsetBlocks [''192.168.0.0/24''] [''10.0.0.1/32''])
   \<and> fst (verifyCIDRRoleSecretIDSubset cidrutil_SubsetBlocks [[''10.0.0.1/32''], [''192.168.0.0/24'']]
            \<lparr>array = 0, offset = 0, len = 1\<rparr> \<lparr>array = 1, offset = 0, len = 1\<rparr>)
       = Some (SubsetVerificationFailed [''192.168.0.0/24''] [''10.0.0.1/32''] None)
   \<and> fst (verifyCIDRRoleSecretIDSubset cidrutil_SubsetBlocks [[''10.0.0.1/32''], [''10.0.0.0/24'']]
            \<lparr>array = 0, offset = 0, len = 1\<rparr> \<lparr>array = 1, offset = 0, len = 1\<rparr>) = None"
proof -
  let ?sec = "\<lparr>array = 0, offset = 0, len = 1\<rparr>"
  let ?role = "\<lparr>array = 1, offset = 0, len = 1\<rparr>"
  have c1: "verifyCIDRRoleSecretIDSubset cidrutil_SubsetBlocks [[''10.0.0.1/32''], []]
       ?sec \<lparr>array = 1, offset = 0, len = 0\<rparr> = (None, [[''10.0.0.1/32''], []])"
    using verifyCIDRRoleSecretIDSubset_outcomes [of ?sec "\<lparr>array = 1, offset = 0, len = 0\<rparr>"
        cidrutil_SubsetBlocks "[[''10.0.0.1/32''], []]"]
    by simp
  have c2: "verifyCIDRRoleSecretIDSubset cidrutil_SubsetBlocks [[], [''10.0.0.0/24'']]
       \<lparr>array = 0, offset = 0, len = 0\<rparr> ?role = (None, [[], [''10.0.0.0/24'']])"
    using verifyCIDRRoleSecretIDSubset_outcomes [of "\<lparr>array = 0, offset = 0, len = 0\<rparr>" ?role
        cidrutil_SubsetBlocks "[[], [''10.0.0.0/24'']]"]
    by simp
  have m1: "appendMasks ?role [[''10.0.0.1/32''], [''192.168.0.0/24'']]
              = [[''10.0.0.1/32''], [''192.168.0.0/24'']]"
    and m2: "appendMasks ?role [[''10.0.0.1/32''], [''10.0.0.0/24'']]
              = [[''10.0.0.1/32''], [''10.0.0.0/24'']]"
    by (simp_all add: appendMasks_def appendMask_def sliceIndex_def one_turn)
  have n: "\<not> fst (cidrutil_SubsetBlocks [''192.168.0.0/24''] [''10.0.0.1/32''])"
    by (simp add: check_other_network)
  have R1: "sliceElems (appendMasks ?role [[''10.0.0.1/32''], [''192.168.0.0/24'']]) ?role
              = [''192.168.0.0/24'']"
    and S1: "sliceElems (appendMasks ?role [[''10.0.0.1/32''], [''192.168.0.0/24'']]) ?sec
              = [''10.0.0.1/32'']"
    unfolding m1 by (simp_all add: sliceElems_def)
  have R2: "sliceElems (appendMasks ?role [[''10.0.0.1/32''], [''10.0.0.0/24'']]) ?role
              = [''10.0.0.0/24'']"
    and S2: "sliceElems (appendMasks ?role [[''10.0.0.1/32''], [''10.0.0.0/24'']]) ?sec
              = [''10.0.0.1/32'']"
    unfolding m2 by (simp_all add: sliceElems_def)
  have c3: "fst (verifyCIDRRoleSecretIDSubset cidrutil_SubsetBlocks [[''10.0.0.1/32''], [''192.168.0.0/24'']]
            ?sec ?role)
       = Some (SubsetVerificationFailed [''192.168.0.0/24''] [''10.0.0.1/32''] None)"
    using verifyCIDRRoleSecretIDSubset_outcomes [of ?sec ?role cidrutil_SubsetBlocks
        "[[''10.0.0.1/32''], [''192.168.0.0/24'']]", unfolded R1 S1 check_other_network]
    by simp
  have c4: "fst (verifyCIDRRoleSecretIDSubset cidrutil_SubsetBlocks [[''10.0.0.1/32''], [''10.0.0.0/24'']]
            ?sec ?role) = None"
    using verifyCIDRRoleSecretIDSubset_outcomes [of ?sec ?role cidrutil_SubsetBlocks
        "[[''10.0.0.1/32''], [''10.0.0.0/24'']]", unfolded R2 S2 check_host_in_network]
    by simp
  from c1 c2 n c3 c4 show ?thesis by blast
qed

end
